theory Spec2Isabelle
  imports Complex_Main
begin

section \<open>JavaScript values\<close>

text \<open>
  The sync scripts consume JSON payloads of the upstream REST API and build JSON-like
  documents for the store. Values are modelled as a datatype of JSON data extended with
  \<open>undefined\<close>, \<open>Date\<close> objects, and the built-in functions and prototype objects that a
  read of an inherited name returns.

  Numbers: a finite number carries its exact rational value (the rounding of IEEE doubles
  and the sign of zero are not represented); the three non-finite numbers of JavaScript
  are separate constructors.

  Objects are lists of own properties in insertion order; a lookup takes the first entry of
  a key. An object, an array and a date also inherit the properties of their prototype,
  which the operator \<open>in\<close> finds and a property read returns: the value of an inherited
  name is a built-in function, and the value of \<open>__proto__\<close> is the prototype object itself.
\<close>

datatype jsnum = Fin rat | PInf | NInf | NaN

datatype jsdate =
    Invalid_Date
  | Local_Date int int int  \<comment> \<open>\<open>new Date(year, monthIndex, day)\<close>, local midnight\<close>
  | Instant int             \<comment> \<open>a point in time given by the host\<close>

datatype proto = Object_prototype | Array_prototype | Date_prototype

datatype jsval =
    JUndefined
  | JNull
  | JBool bool
  | JNum jsnum
  | JStr string
  | JArr "jsval list"
  | JObj "(string \<times> jsval) list"
  | JDate jsdate
  | JFun proto string   \<comment> \<open>the built-in function that the prototype holds under the name\<close>
  | JProto proto        \<comment> \<open>the prototype object\<close>

abbreviation num :: "rat \<Rightarrow> jsval" where
  "num q \<equiv> JNum (Fin q)"

text \<open>ToBoolean: \<open>undefined\<close>, \<open>null\<close>, \<open>false\<close>, \<open>0\<close>, \<open>NaN\<close> and \<open>""\<close> are falsy.\<close>

fun truthy :: "jsval \<Rightarrow> bool" where
  "truthy JUndefined = False"
| "truthy JNull = False"
| "truthy (JBool b) = b"
| "truthy (JNum n) = (n \<noteq> Fin 0 \<and> n \<noteq> NaN)"
| "truthy (JStr s) = (s \<noteq> [])"
| "truthy (JArr xs) = True"
| "truthy (JObj fs) = True"
| "truthy (JDate d) = True"
| "truthy (JFun p k) = True"
| "truthy (JProto p) = True"

text \<open>\<open>a || b\<close>\<close>

definition js_or :: "jsval \<Rightarrow> jsval \<Rightarrow> jsval" where
  "js_or a b = (if truthy a then a else b)"

fun nullish :: "jsval \<Rightarrow> bool" where
  "nullish JUndefined = True"
| "nullish JNull = True"
| "nullish v = False"

text \<open>\<open>typeof v === 'object'\<close> (which holds of \<open>null\<close> too; a function has the type
  \<open>'function'\<close>).\<close>

fun typeof_object :: "jsval \<Rightarrow> bool" where
  "typeof_object JNull = True"
| "typeof_object (JArr xs) = True"
| "typeof_object (JObj fs) = True"
| "typeof_object (JDate d) = True"
| "typeof_object (JProto p) = True"
| "typeof_object v = False"

text \<open>The values that are not objects: \<open>undefined\<close>, \<open>null\<close>, booleans, numbers and strings.\<close>

fun primitive :: "jsval \<Rightarrow> bool" where
  "primitive JUndefined = True"
| "primitive JNull = True"
| "primitive (JBool b) = True"
| "primitive (JNum n) = True"
| "primitive (JStr s) = True"
| "primitive v = False"

subsection \<open>Property access\<close>

text \<open>Decimal digits of a natural number, as array indices are spelled as property keys.\<close>

definition digit_char :: "nat \<Rightarrow> char" where
  "digit_char d = char_of (48 + d)"

fun show_nat :: "nat \<Rightarrow> string" where
  "show_nat n = (if n < 10 then [digit_char n] else show_nat (n div 10) @ [digit_char (n mod 10)])"

declare show_nat.simps [simp del]

definition is_digit :: "char \<Rightarrow> bool" where
  "is_digit c = ((48::nat) \<le> of_char c \<and> of_char c \<le> (57::nat))"

definition digit_val :: "char \<Rightarrow> nat" where
  "digit_val c = of_char c - 48"

definition digits_val :: "string \<Rightarrow> nat" where
  "digits_val ds = foldl (\<lambda>a c. 10 * a + digit_val c) 0 ds"

text \<open>A property key that is a canonical array index: decimal digits without a leading
  zero (apart from \<open>"0"\<close> itself).\<close>

definition array_index :: "string \<Rightarrow> nat option" where
  "array_index k =
     (if k \<noteq> [] \<and> list_all is_digit k \<and> (hd k \<noteq> CHR ''0'' \<or> length k = 1)
      then Some (digits_val k) else None)"

text \<open>
  The names of the functions that the three prototypes hold as own properties (the
  standard library of ECMAScript 2023, with the legacy accessors \<open>__defineGetter__\<close> etc.
  that Node.js keeps). Properties with a symbol as key are not reached by a string.
\<close>

definition object_methods :: "string list" where
  "object_methods =
     [''constructor'', ''__defineGetter__'', ''__defineSetter__'', ''hasOwnProperty'',
      ''__lookupGetter__'', ''__lookupSetter__'', ''isPrototypeOf'', ''propertyIsEnumerable'',
      ''toString'', ''valueOf'', ''toLocaleString'']"

definition array_methods :: "string list" where
  "array_methods =
     [''constructor'', ''at'', ''concat'', ''copyWithin'', ''fill'', ''find'', ''findIndex'',
      ''findLast'', ''findLastIndex'', ''lastIndexOf'', ''pop'', ''push'', ''reverse'', ''shift'',
      ''unshift'', ''slice'', ''sort'', ''splice'', ''includes'', ''indexOf'', ''join'', ''keys'',
      ''entries'', ''values'', ''forEach'', ''filter'', ''flat'', ''flatMap'', ''map'', ''every'',
      ''some'', ''reduce'', ''reduceRight'', ''toLocaleString'', ''toString'', ''toReversed'',
      ''toSorted'', ''toSpliced'', ''with'']"

definition date_methods :: "string list" where
  "date_methods =
     [''constructor'', ''toString'', ''toDateString'', ''toTimeString'', ''toISOString'',
      ''toUTCString'', ''toGMTString'', ''getDate'', ''setDate'', ''getDay'', ''getFullYear'',
      ''setFullYear'', ''getHours'', ''setHours'', ''getMilliseconds'', ''setMilliseconds'',
      ''getMinutes'', ''setMinutes'', ''getMonth'', ''setMonth'', ''getSeconds'', ''setSeconds'',
      ''getTime'', ''setTime'', ''getTimezoneOffset'', ''getUTCDate'', ''setUTCDate'',
      ''getUTCDay'', ''getUTCFullYear'', ''setUTCFullYear'', ''getUTCHours'', ''setUTCHours'',
      ''getUTCMilliseconds'', ''setUTCMilliseconds'', ''getUTCMinutes'', ''setUTCMinutes'',
      ''getUTCMonth'', ''setUTCMonth'', ''getUTCSeconds'', ''setUTCSeconds'', ''valueOf'',
      ''getYear'', ''setYear'', ''toJSON'', ''toLocaleString'', ''toLocaleDateString'',
      ''toLocaleTimeString'']"

text \<open>The function found under a name along the prototype chain that starts at \<open>p\<close>.\<close>

definition object_method :: "string \<Rightarrow> jsval option" where
  "object_method k = (if k \<in> set object_methods then Some (JFun Object_prototype k) else None)"

fun found_method :: "proto \<Rightarrow> string \<Rightarrow> jsval option" where
  "found_method Object_prototype k = object_method k"
| "found_method Array_prototype k =
     (if k \<in> set array_methods then Some (JFun Array_prototype k) else object_method k)"
| "found_method Date_prototype k =
     (if k \<in> set date_methods then Some (JFun Date_prototype k) else object_method k)"

text \<open>What a value whose prototype is \<open>p\<close> inherits under a name: the accessor
  \<open>__proto__\<close> of \<open>Object.prototype\<close> yields the prototype of the value.\<close>

definition inherited :: "proto \<Rightarrow> string \<Rightarrow> jsval option" where
  "inherited p k = (if k = ''__proto__'' then Some (JProto p) else found_method p k)"

text \<open>The prototype of a value: \<open>Object.prototype\<close> is the end of every chain. The
  prototypes of strings, numbers, booleans and functions are not modelled.\<close>

fun proto_of :: "jsval \<Rightarrow> proto option" where
  "proto_of (JObj fs) = Some Object_prototype"
| "proto_of (JArr xs) = Some Array_prototype"
| "proto_of (JDate d) = Some Date_prototype"
| "proto_of (JProto Array_prototype) = Some Object_prototype"
| "proto_of (JProto Date_prototype) = Some Object_prototype"
| "proto_of v = None"

text \<open>The own properties of a value: the entries of an object, the elements and the
  \<open>length\<close> of an array or a string, the functions of a prototype object
  (\<open>Array.prototype\<close> is itself an empty array, and the \<open>__proto__\<close> of \<open>Object.prototype\<close> is
  \<open>null\<close>). The own properties of a function (\<open>name\<close>, \<open>length\<close>) are not modelled: the code
  reads a property under a computed name only after the test \<open>typeof v === 'object'\<close>.\<close>

fun own_prop :: "jsval \<Rightarrow> string \<Rightarrow> jsval option" where
  "own_prop (JObj fs) k = map_of fs k"
| "own_prop (JArr xs) k =
     (if k = ''length'' then Some (num (of_nat (length xs)))
      else case array_index k of
             Some i \<Rightarrow> (if i < length xs then Some (xs ! i) else None)
           | None \<Rightarrow> None)"
| "own_prop (JStr s) k =
     (if k = ''length'' then Some (num (of_nat (length s)))
      else case array_index k of
             Some i \<Rightarrow> (if i < length s then Some (JStr [s ! i]) else None)
           | None \<Rightarrow> None)"
| "own_prop (JProto Object_prototype) k =
     (if k = ''__proto__'' then Some JNull
      else if k \<in> set object_methods then Some (JFun Object_prototype k) else None)"
| "own_prop (JProto Array_prototype) k =
     (if k = ''length'' then Some (num 0)
      else if k \<in> set array_methods then Some (JFun Array_prototype k) else None)"
| "own_prop (JProto Date_prototype) k =
     (if k \<in> set date_methods then Some (JFun Date_prototype k) else None)"
| "own_prop v k = None"

text \<open>\<open>v[k]\<close> for a value \<open>v\<close> that is neither \<open>undefined\<close> nor \<open>null\<close>: the own property,
  else the inherited one, else \<open>undefined\<close>.\<close>

definition get_prop :: "jsval \<Rightarrow> string \<Rightarrow> jsval" where
  "get_prop v k =
     (case own_prop v k of
        Some x \<Rightarrow> x
      | None \<Rightarrow>
          (case proto_of v of
             Some p \<Rightarrow> (case inherited p k of Some x \<Rightarrow> x | None \<Rightarrow> JUndefined)
           | None \<Rightarrow> JUndefined))"

text \<open>\<open>k in v\<close> for a value with \<open>typeof v === 'object'\<close> that is not \<open>null\<close>: own and
  inherited properties.\<close>

definition has_prop :: "jsval \<Rightarrow> string \<Rightarrow> bool" where
  "has_prop v k =
     (own_prop v k \<noteq> None
      \<or> (case proto_of v of Some p \<Rightarrow> inherited p k \<noteq> None | None \<Rightarrow> False))"

text \<open>
  The conversion of a value to a primitive (for a template literal, \<open>parseInt\<close>, \<open>+\<close>, \<open>>\<close>)
  calls the methods \<open>toString\<close> and \<open>valueOf\<close> of an object. In an object of a JSON payload
  an own property \<open>toString\<close> is not a function, and the inherited \<open>valueOf\<close> returns the
  object itself, so that the conversion throws a TypeError; an array joins the conversions
  of its elements; \<open>Date.prototype.toString\<close> throws on the prototype object, which is not
  a date. Every other value converts.
\<close>

fun convertible :: "jsval \<Rightarrow> bool" where
  "convertible (JObj fs) = (map_of fs ''toString'' = None)"
| "convertible (JArr xs) = (\<forall>x\<in>set xs. nullish x \<or> convertible x)"
| "convertible (JProto Date_prototype) = False"
| "convertible v = True"

datatype error =
    TypeError            \<comment> \<open>property read of \<open>undefined\<close>/\<open>null\<close>, call of a non-function, ...\<close>
  | HttpError "int option" \<comment> \<open>axios rejection; the status of \<open>err.response\<close> when there is one\<close>
  | DbError              \<comment> \<open>the store rejected a write\<close>

text \<open>\<open>v.k\<close>: throws on \<open>undefined\<close> and \<open>null\<close>.\<close>

definition read_prop :: "jsval \<Rightarrow> string \<Rightarrow> error + jsval" where
  "read_prop v k = (if nullish v then Inl TypeError else Inr (get_prop v k))"

text \<open>\<open>v?.k\<close>\<close>

definition opt_prop :: "jsval \<Rightarrow> string \<Rightarrow> jsval" where
  "opt_prop v k = (if nullish v then JUndefined else get_prop v k)"

section \<open>The upstream API and the rate-limited request helper\<close>

text \<open>
  Requests are kept symbolic: the endpoint of the URL and the values interpolated into it.
  The Authorization header (a signature with nonce and timestamp) and the timeout are left
  out; the signature is computed by the OAuth library from the URL, and what the library
  does with a reference that is not a string is outside the model.
\<close>

datatype endpoint =
    ItemDetail jsval           \<comment> \<open>\<open>/inventoryitem/${itemId}\<close>\<close>
  | ItemList nat jsval         \<comment> \<open>\<open>/inventoryItem?limit=${itemsToFetch}&offset=${offset}\<close>\<close>
  | ItemsModifiedAfter jsval   \<comment> \<open>\<open>/inventoryItem?q=lastModifiedDate AFTER "${date}"&limit=1000\<close>\<close>
  | AuthProbe                  \<comment> \<open>\<open>/inventoryItem?limit=1\<close>\<close>
  | Href jsval                 \<comment> \<open>a link taken from an earlier response\<close>
  | SuiteQL "jsval list"       \<comment> \<open>the movement query for a batch of item ids\<close>

datatype request = Get endpoint | Post endpoint

datatype event = Request request | Wait int

datatype outcome =
    Response jsval         \<comment> \<open>\<open>response.data\<close>\<close>
  | Failure "int option"   \<comment> \<open>\<open>err.response?.status\<close>\<close>

text \<open>The upstream answers a request depending on everything that happened before.\<close>

type_synonym upstream = "event list \<Rightarrow> request \<Rightarrow> outcome"

text \<open>
  \<open>netsuiteRequest(config, retries = 3)\<close>. The Bottleneck limiter only delays the call, so
  \<open>limiter.schedule(() => axios(config))\<close> is the upstream's answer. The function
  threads the trace of requests and waits; it returns \<open>response.data\<close> or the error thrown.
  The helper exists in three copies (\<open>utils/netsuiteRequest.js\<close>, \<open>scripts/syncInventory.js\<close>
  and the full-catalogue script) with the same retry logic; the copy in \<open>utils\<close> signs the
  request itself.
\<close>

function netsuiteRequest ::
  "upstream \<Rightarrow> event list \<Rightarrow> request \<Rightarrow> int \<Rightarrow> (error + jsval) \<times> event list" where
  "netsuiteRequest up tr config retries =
     (case up tr config of
        Response d \<Rightarrow> (Inr d, tr @ [Request config])
      | Failure st \<Rightarrow>
          (if st = Some 429 \<and> retries > 0
           then netsuiteRequest up (tr @ [Request config, Wait ((4 - retries) * 5000)])
                  config (retries - 1)
           else (Inl (HttpError st), tr @ [Request config])))"
  by pat_completeness auto
termination
  by (relation "measure (\<lambda>(up, tr, config, retries). nat retries)") auto

declare netsuiteRequest.simps [simp del]

section \<open>The transformer's helpers\<close>

subsection \<open>Strings and numbers\<close>

text \<open>\<open>s.split(c)\<close> for a separator of one character.\<close>

fun split_on :: "char \<Rightarrow> string \<Rightarrow> string list" where
  "split_on c [] = [[]]"
| "split_on c (x # xs) =
     (if x = c then [] # split_on c xs
      else case split_on c xs of
             y # ys \<Rightarrow> (x # y) # ys
           | [] \<Rightarrow> [[x]])"

text \<open>White space that \<open>parseFloat\<close> and \<open>parseInt\<close> skip: tab, line feed, vertical tab,
  form feed, carriage return and space (the white space beyond ASCII is left out).\<close>

definition is_space :: "char \<Rightarrow> bool" where
  "is_space c = ((of_char c :: nat) \<in> {9, 10, 11, 12, 13, 32})"

fun neg :: "jsnum \<Rightarrow> jsnum" where
  "neg (Fin q) = Fin (- q)"
| "neg PInf = NInf"
| "neg NInf = PInf"
| "neg NaN = NaN"

fun is_finite :: "jsnum \<Rightarrow> bool" where
  "is_finite (Fin q) = True"
| "is_finite n = False"

definition scale10 :: "rat \<Rightarrow> int \<Rightarrow> rat" where
  "scale10 q e = (if 0 \<le> e then q * 10 ^ nat e else q / 10 ^ nat (- e))"

text \<open>The exponent part \<open>e\<close>, \<open>e+\<close> or \<open>e-\<close> followed by digits, when the rest of the string
  starts with one; otherwise there is no exponent.\<close>

definition exponent_digits :: "string \<Rightarrow> int \<Rightarrow> int" where
  "exponent_digits r sign =
     (let ds = takeWhile is_digit r in if ds = [] then 0 else sign * int (digits_val ds))"

fun parse_exponent :: "string \<Rightarrow> int" where
  "parse_exponent [] = 0"
| "parse_exponent (c # r) =
     (if c = CHR ''e'' \<or> c = CHR ''E'' then
        (case r of
           [] \<Rightarrow> 0
         | s # r' \<Rightarrow>
             if s = CHR ''+'' then exponent_digits r' 1
             else if s = CHR ''-'' then exponent_digits r' (- 1)
             else exponent_digits r 1)
      else 0)"

text \<open>The longest prefix that is an unsigned decimal literal: \<open>Infinity\<close>, digits with an
  optional fraction and exponent, or a fraction starting with the point.\<close>

definition parse_unsigned :: "string \<Rightarrow> jsnum" where
  "parse_unsigned s =
     (if take 8 s = ''Infinity'' then PInf
      else
        let ip = takeWhile is_digit s; r1 = dropWhile is_digit s in
        case r1 of
          c # r2 \<Rightarrow>
            if c = CHR ''.'' then
              (let fp = takeWhile is_digit r2; r3 = dropWhile is_digit r2 in
               if ip = [] \<and> fp = [] then NaN
               else Fin (scale10 (of_nat (digits_val ip) + of_nat (digits_val fp) / 10 ^ length fp)
                           (parse_exponent r3)))
            else if ip = [] then NaN
            else Fin (scale10 (of_nat (digits_val ip)) (parse_exponent r1))
        | [] \<Rightarrow> if ip = [] then NaN else Fin (of_nat (digits_val ip)))"

text \<open>\<open>parseFloat(s)\<close> for a string.\<close>

definition parseFloat :: "string \<Rightarrow> jsnum" where
  "parseFloat s =
     (case dropWhile is_space s of
        [] \<Rightarrow> NaN
      | c # r \<Rightarrow>
          if c = CHR ''+'' then parse_unsigned r
          else if c = CHR ''-'' then neg (parse_unsigned r)
          else parse_unsigned (c # r))"

text \<open>\<open>parseInt(s, 10)\<close> for a string; \<open>None\<close> is \<open>NaN\<close>.\<close>

definition parseInt10 :: "string \<Rightarrow> int option" where
  "parseInt10 s =
     (let t = dropWhile is_space s;
          sign = (if take 1 t = ''-'' then - 1 else 1);
          r = (if take 1 t = ''-'' \<or> take 1 t = ''+'' then drop 1 t else t);
          ds = takeWhile is_digit r
      in if ds = [] then None else Some (sign * int (digits_val ds)))"

definition hex_digit :: "char \<Rightarrow> nat option" where
  "hex_digit c =
     (let n = (of_char c :: nat) in
      if 48 \<le> n \<and> n \<le> 57 then Some (n - 48)
      else if 97 \<le> n \<and> n \<le> 102 then Some (n - 87)
      else if 65 \<le> n \<and> n \<le> 70 then Some (n - 55)
      else None)"

text \<open>\<open>parseInt(s)\<close> without a radix: decimal, or hexadecimal after \<open>0x\<close>; \<open>None\<close> is \<open>NaN\<close>.\<close>

definition parseInt_str :: "string \<Rightarrow> int option" where
  "parseInt_str s =
     (let t = dropWhile is_space s;
          sign = (if take 1 t = ''-'' then - 1 else 1);
          r = (if take 1 t = ''-'' \<or> take 1 t = ''+'' then drop 1 t else t)
      in if take 2 r = ''0x'' \<or> take 2 r = ''0X'' then
           (let hs = takeWhile (\<lambda>c. hex_digit c \<noteq> None) (drop 2 r) in
            if hs = [] then None
            else Some (sign * int (foldl (\<lambda>a c. 16 * a + the (hex_digit c)) 0 hs)))
         else
           (let ds = takeWhile is_digit r in
            if ds = [] then None else Some (sign * int (digits_val ds))))"

text \<open>
  ToNumber of a string: white space around the literal is dropped; the empty string is 0;
  the whole rest has to be a literal (a signed decimal literal, \<open>Infinity\<close>, or an unsigned
  integer in base 2, 8 or 16), otherwise the result is \<open>NaN\<close>.
\<close>

definition trim :: "string \<Rightarrow> string" where
  "trim s = rev (dropWhile is_space (rev (dropWhile is_space s)))"

text \<open>The exponent that ends a decimal literal: nothing, or \<open>e\<close>, an optional sign and at
  least one digit; \<open>None\<close> when the rest of the string is something else.\<close>

definition exponent_of :: "string \<Rightarrow> int option" where
  "exponent_of r =
     (case r of
        [] \<Rightarrow> Some 0
      | c # r1 \<Rightarrow>
          if c = CHR ''e'' \<or> c = CHR ''E'' then
            (let sign = (if take 1 r1 = ''-'' then - 1 else 1);
                 ds = (if take 1 r1 = ''-'' \<or> take 1 r1 = ''+'' then drop 1 r1 else r1)
             in if ds \<noteq> [] \<and> list_all is_digit ds then Some (sign * int (digits_val ds))
                else None)
          else None)"

definition unsigned_decimal :: "string \<Rightarrow> jsnum" where
  "unsigned_decimal s =
     (if s = ''Infinity'' then PInf
      else
        let ip = takeWhile is_digit s; r1 = dropWhile is_digit s in
        case r1 of
          [] \<Rightarrow> if ip = [] then NaN else Fin (of_nat (digits_val ip))
        | c # r2 \<Rightarrow>
            if c = CHR ''.'' then
              (let fp = takeWhile is_digit r2; r3 = dropWhile is_digit r2 in
               if ip = [] \<and> fp = [] then NaN
               else case exponent_of r3 of
                      None \<Rightarrow> NaN
                    | Some e \<Rightarrow>
                        Fin (scale10 (of_nat (digits_val ip)
                                        + of_nat (digits_val fp) / 10 ^ length fp) e))
            else if ip = [] then NaN
            else case exponent_of r1 of
                   None \<Rightarrow> NaN
                 | Some e \<Rightarrow> Fin (scale10 (of_nat (digits_val ip)) e))"

text \<open>The digits of a literal after its prefix \<open>0b\<close>, \<open>0o\<close> or \<open>0x\<close>, in the given base.\<close>

definition radix_digits :: "nat \<Rightarrow> string \<Rightarrow> jsnum" where
  "radix_digits base ds =
     (if ds \<noteq> [] \<and> list_all (\<lambda>c. case hex_digit c of Some d \<Rightarrow> d < base | None \<Rightarrow> False) ds
      then Fin (of_nat (foldl (\<lambda>a c. base * a + the (hex_digit c)) 0 ds))
      else NaN)"

definition str_num :: "string \<Rightarrow> jsnum" where
  "str_num s =
     (let t = trim s in
      if t = [] then Fin 0
      else if take 2 t = ''0x'' \<or> take 2 t = ''0X'' then radix_digits 16 (drop 2 t)
      else if take 2 t = ''0o'' \<or> take 2 t = ''0O'' then radix_digits 8 (drop 2 t)
      else if take 2 t = ''0b'' \<or> take 2 t = ''0B'' then radix_digits 2 (drop 2 t)
      else if take 1 t = ''+'' then unsigned_decimal (drop 1 t)
      else if take 1 t = ''-'' then neg (unsigned_decimal (drop 1 t))
      else unsigned_decimal t)"

text \<open>The order of strings under \<open><\<close>: by the first character that differs, a proper prefix
  first.\<close>

fun str_less :: "string \<Rightarrow> string \<Rightarrow> bool" where
  "str_less [] [] = False"
| "str_less [] (y # ys) = True"
| "str_less (x # xs) [] = False"
| "str_less (x # xs) (y # ys) =
     ((of_char x :: nat) < of_char y \<or> (x = y \<and> str_less xs ys))"

text \<open>The order of numbers under \<open><\<close>: \<open>NaN\<close> is not comparable.\<close>

fun num_less :: "jsnum \<Rightarrow> jsnum \<Rightarrow> bool" where
  "num_less (Fin a) (Fin b) = (a < b)"
| "num_less (Fin a) PInf = True"
| "num_less NInf (Fin b) = True"
| "num_less NInf PInf = True"
| "num_less a b = False"

subsection \<open>Field extraction\<close>

text \<open>
  The loop of \<open>extractValue\<close> over the segments of the path; \<open>None\<close> is the early
  \<open>return ''\<close> at a segment that cannot be followed.
\<close>

fun walk :: "jsval \<Rightarrow> string list \<Rightarrow> jsval option" where
  "walk v [] = Some v"
| "walk v (field # fields) =
     (if truthy v \<and> typeof_object v \<and> has_prop v field
      then walk (get_prop v field) fields
      else None)"

definition extractValue :: "jsval \<Rightarrow> string \<Rightarrow> jsval" where
  "extractValue data fieldPath =
     (case walk data (split_on CHR ''.'' fieldPath) of
        None \<Rightarrow> JStr []
      | Some v \<Rightarrow>
          if truthy v \<and> typeof_object v \<and> has_prop v ''refName''
          then js_or (get_prop v ''refName'') (JStr [])
          else js_or v (JStr []))"

text \<open>
  \<open>extractNumericValue(data, fieldName)\<close>. The operator \<open>in\<close> throws a TypeError when
  \<open>data\<close> is a truthy primitive. The result is a JavaScript number.
\<close>

definition extractNumericValue :: "jsval \<Rightarrow> string \<Rightarrow> error + jsnum" where
  "extractNumericValue data fieldName =
     (if \<not> truthy data then Inr (Fin 0)
      else if primitive data then Inl TypeError
      else if has_prop data fieldName then
        (let v = get_prop data fieldName in
         if v = JNull \<or> v = JUndefined then Inr (Fin 0)
         else case v of
                JNum n \<Rightarrow> Inr n
              | JStr s \<Rightarrow> (let parsed = parseFloat s in Inr (if parsed = NaN then Fin 0 else parsed))
              | _ \<Rightarrow> Inr (Fin 0))
      else Inr (Fin 0))"

subsection \<open>Dates of the movement feed\<close>

text \<open>
  \<open>new Date(year, month, day)\<close>: an argument that is \<open>NaN\<close> gives an Invalid Date; a year
  from 0 to 99 counts from 1900. Months and days outside their range are kept as given
  (the constructor carries them over by calendar arithmetic).
\<close>

definition new_Date :: "int option \<Rightarrow> int option \<Rightarrow> int option \<Rightarrow> jsdate" where
  "new_Date year month day =
     (case (year, month, day) of
        (Some y, Some m, Some d) \<Rightarrow> Local_Date (if 0 \<le> y \<and> y \<le> 99 then 1900 + y else y) m d
      | _ \<Rightarrow> Invalid_Date)"

text \<open>
  \<open>parseNetSuiteDate(dateString)\<close>. For a truthy value that is not a string,
  \<open>dateString.split\<close> is not a function: the TypeError is caught, the \<open>catch\<close> block
  interpolates the value into its log line, and the function falls through to
  \<open>return null\<close>; when the value does not convert to a string, the \<open>catch\<close> block itself
  throws.
\<close>

definition parseNetSuiteDate :: "jsval \<Rightarrow> error + jsval" where
  "parseNetSuiteDate dateString =
     (if \<not> truthy dateString then Inr JNull
      else case dateString of
             JStr s \<Rightarrow>
               (let parts = split_on CHR ''/'' s in
                if length parts = 3 then
                  (let day = parseInt10 (parts ! 0);
                       month = map_option (\<lambda>m. m - 1) (parseInt10 (parts ! 1));
                       year = parseInt10 (parts ! 2)
                   in Inr (JDate (new_Date year month day)))
                else Inr JNull)
           | v \<Rightarrow> if convertible v then Inr JNull else Inl TypeError)"

section \<open>Host functions and conversions\<close>

text \<open>
  What the JavaScript host computes and the model does not: the decimal spelling of a
  number, the spelling, the time value and the parsing of dates, the clock, and JSON
  serialisation. The functions of the model take the host as a parameter, so that every
  theorem holds for every host. The request signer \<open>generateOAuthHeaders\<close> is taken to return
  for every URL. Method calls (\<open>toString\<close>, \<open>includes\<close>, \<open>split\<close>, \<open>substring\<close>, \<open>toFixed\<close>)
  resolve to the built-in method of the value's type, and throw a TypeError for a value
  that has no such method.
\<close>

record host =
  num_str :: "jsnum \<Rightarrow> string"      \<comment> \<open>\<open>Number.prototype.toString\<close>\<close>
  date_str :: "jsdate \<Rightarrow> string"    \<comment> \<open>\<open>Date.prototype.toString\<close>\<close>
  date_val :: "jsdate \<Rightarrow> jsnum"     \<comment> \<open>\<open>Date.prototype.valueOf\<close>\<close>
  date_of :: "jsval \<Rightarrow> jsdate"      \<comment> \<open>\<open>new Date(v)\<close> for a value that converts to a primitive\<close>
  clock :: "event list \<Rightarrow> jsdate"   \<comment> \<open>\<open>new Date()\<close> after the given events\<close>
  stringify :: "jsval \<Rightarrow> jsval"      \<comment> \<open>\<open>JSON.stringify\<close>\<close>

fun join_with :: "string \<Rightarrow> string list \<Rightarrow> string" where
  "join_with sep [] = []"
| "join_with sep [x] = x"
| "join_with sep (x # y # ys) = x @ sep @ join_with sep (y # ys)"

text \<open>The name that the source text of a built-in function shows.\<close>

definition builtin_name :: "proto \<Rightarrow> string \<Rightarrow> string" where
  "builtin_name p k =
     (if k = ''constructor'' then
        (case p of Object_prototype \<Rightarrow> ''Object'' | Array_prototype \<Rightarrow> ''Array''
         | Date_prototype \<Rightarrow> ''Date'')
      else if p = Date_prototype \<and> k = ''toGMTString'' then ''toUTCString''
      else k)"

text \<open>ToString of a value that converts (\<open>convertible\<close>).\<close>

fun to_string :: "host \<Rightarrow> jsval \<Rightarrow> string" where
  "to_string h JUndefined = ''undefined''"
| "to_string h JNull = ''null''"
| "to_string h (JBool b) = (if b then ''true'' else ''false'')"
| "to_string h (JNum n) = num_str h n"
| "to_string h (JStr s) = s"
| "to_string h (JArr xs) =
     join_with '','' (map (\<lambda>x. if x = JUndefined \<or> x = JNull then [] else to_string h x) xs)"
| "to_string h (JObj fs) = ''[object Object]''"
| "to_string h (JDate d) = date_str h d"
| "to_string h (JFun p k) = ''function '' @ builtin_name p k @ ''() { [native code] }''"
| "to_string h (JProto Object_prototype) = ''[object Object]''"
| "to_string h (JProto p) = []"

text \<open>ToString: a template literal \<open>`${v}`\<close>, the argument of \<open>parseInt\<close>, \<open>v.toString()\<close> of a
  value that is neither \<open>undefined\<close> nor \<open>null\<close>.\<close>

definition to_str :: "host \<Rightarrow> jsval \<Rightarrow> error + string" where
  "to_str h v = (if convertible v then Inr (to_string h v) else Inl TypeError)"

text \<open>ToPrimitive with the hint \<open>number\<close>, of a value that converts: a date gives its time
  value, any other object its string.\<close>

fun to_primitive :: "host \<Rightarrow> jsval \<Rightarrow> jsval" where
  "to_primitive h (JArr xs) = JStr (to_string h (JArr xs))"
| "to_primitive h (JObj fs) = JStr (to_string h (JObj fs))"
| "to_primitive h (JFun p k) = JStr (to_string h (JFun p k))"
| "to_primitive h (JProto p) = JStr (to_string h (JProto p))"
| "to_primitive h (JDate d) = JNum (date_val h d)"
| "to_primitive h v = v"

text \<open>ToNumber of a primitive.\<close>

fun to_number :: "jsval \<Rightarrow> jsnum" where
  "to_number JNull = Fin 0"
| "to_number (JBool b) = Fin (if b then 1 else 0)"
| "to_number (JNum n) = n"
| "to_number (JStr s) = str_num s"
| "to_number v = NaN"

text \<open>\<open>a > b\<close>: two strings are compared as strings, any other pair as numbers.\<close>

definition js_gt :: "host \<Rightarrow> jsval \<Rightarrow> jsval \<Rightarrow> error + bool" where
  "js_gt h a b =
     (if \<not> convertible a \<or> \<not> convertible b then Inl TypeError
      else case (to_primitive h a, to_primitive h b) of
             (JStr x, JStr y) \<Rightarrow> Inr (str_less y x)
           | (pa, pb) \<Rightarrow> Inr (num_less (to_number pb) (to_number pa)))"

fun num_add :: "jsnum \<Rightarrow> jsnum \<Rightarrow> jsnum" where
  "num_add (Fin a) (Fin b) = Fin (a + b)"
| "num_add NaN n = NaN"
| "num_add n NaN = NaN"
| "num_add PInf NInf = NaN"
| "num_add NInf PInf = NaN"
| "num_add PInf n = PInf"
| "num_add n PInf = PInf"
| "num_add NInf n = NInf"
| "num_add n NInf = NInf"

text \<open>Operands that make \<open>+\<close> a string concatenation: strings, and objects (whose
  primitive value under \<open>+\<close> is a string, also for a date).\<close>

fun stringy :: "jsval \<Rightarrow> bool" where
  "stringy (JStr s) = True"
| "stringy (JArr xs) = True"
| "stringy (JObj fs) = True"
| "stringy (JDate d) = True"
| "stringy (JFun p k) = True"
| "stringy (JProto p) = True"
| "stringy v = False"

text \<open>\<open>a + b\<close>\<close>

definition js_plus :: "host \<Rightarrow> jsval \<Rightarrow> jsval \<Rightarrow> error + jsval" where
  "js_plus h a b =
     (if \<not> convertible a \<or> \<not> convertible b then Inl TypeError
      else if stringy a \<or> stringy b then Inr (JStr (to_string h a @ to_string h b))
      else Inr (JNum (num_add (to_number a) (to_number b))))"

text \<open>Sequencing of two steps, the first of which may throw.\<close>

definition and_then :: "error + 'a \<Rightarrow> ('a \<Rightarrow> error + 'b) \<Rightarrow> error + 'b" where
  "and_then x f = (case x of Inl e \<Rightarrow> Inl e | Inr v \<Rightarrow> f v)"

text \<open>\<open>for (const x of v)\<close>: arrays (among them the empty \<open>Array.prototype\<close>) and strings are
  iterable, other values throw.\<close>

fun iterate :: "jsval \<Rightarrow> error + jsval list" where
  "iterate (JArr xs) = Inr xs"
| "iterate (JStr s) = Inr (map (\<lambda>c. JStr [c]) s)"
| "iterate (JProto Array_prototype) = Inr []"
| "iterate v = Inl TypeError"

fun contains :: "string \<Rightarrow> string \<Rightarrow> bool" where
  "contains [] sub = (sub = [])"
| "contains (c # s) sub = (take (length sub) (c # s) = sub \<or> contains s sub)"

text \<open>\<open>v?.includes(sub)\<close> for a string \<open>sub\<close>; the result is used as a condition.\<close>

fun js_includes :: "jsval \<Rightarrow> string \<Rightarrow> error + bool" where
  "js_includes JUndefined sub = Inr False"
| "js_includes JNull sub = Inr False"
| "js_includes (JStr s) sub = Inr (contains s sub)"
| "js_includes (JArr xs) sub = Inr (JStr sub \<in> set xs)"
| "js_includes (JProto Array_prototype) sub = Inr False"
| "js_includes v sub = Inl TypeError"

text \<open>The own enumerable properties that an object spread \<open>{...v}\<close> copies.\<close>

fun own_props :: "jsval \<Rightarrow> (string \<times> jsval) list" where
  "own_props (JObj fs) = fs"
| "own_props (JArr xs) = map (\<lambda>i. (show_nat i, xs ! i)) [0..<length xs]"
| "own_props (JStr s) = map (\<lambda>i. (show_nat i, JStr [s ! i])) [0..<length s]"
| "own_props v = []"

text \<open>Setting a property: an existing key keeps its place.\<close>

fun obj_put :: "string \<Rightarrow> jsval \<Rightarrow> (string \<times> jsval) list \<Rightarrow> (string \<times> jsval) list" where
  "obj_put k v [] = [(k, v)]"
| "obj_put k v (p # ps) = (if fst p = k then (k, v) # ps else p # obj_put k v ps)"

text \<open>\<open>{...base, k1: v1, ..., kn: vn}\<close>\<close>

definition spread_with :: "jsval \<Rightarrow> (string \<times> jsval) list \<Rightarrow> jsval" where
  "spread_with base kvs = JObj (foldl (\<lambda>fs (k, v). obj_put k v fs) (own_props base) kvs)"

section \<open>The record fetcher\<close>

text \<open>\<open>links[0].href\<close> and \<open>item.links[0].href\<close>\<close>

definition first_href :: "jsval \<Rightarrow> error + jsval" where
  "first_href links =
     (case read_prop links ''0'' of
        Inl e \<Rightarrow> Inl e
      | Inr l \<Rightarrow> read_prop l ''href'')"

definition link_href :: "jsval \<Rightarrow> error + jsval" where
  "link_href item =
     (case read_prop item ''links'' of
        Inl e \<Rightarrow> Inl e
      | Inr links \<Rightarrow> first_href links)"

text \<open>\<open>fetchPriceDetail\<close>: the detail of one price level, or \<open>null\<close> when the request fails.\<close>

definition fetchPriceDetail ::
  "upstream \<Rightarrow> event list \<Rightarrow> jsval \<Rightarrow> jsval \<Rightarrow> jsval \<times> event list" where
  "fetchPriceDetail up tr itemId priceDetailUrl =
     (case netsuiteRequest up tr (Get (Href priceDetailUrl)) 3 of
        (Inl e, tr') \<Rightarrow> (JNull, tr')
      | (Inr d, tr') \<Rightarrow> (d, tr'))"

record price_state =
  price :: jsval
  currency :: jsval
  tradePrice :: jsval
  retailPrice :: jsval
  hasTradePrice :: bool
  hasRetailPrice :: bool

text \<open>The two tests of the loop body on a fetched detail.\<close>

definition apply_detail :: "price_state \<Rightarrow> jsval \<Rightarrow> price_state" where
  "apply_detail st detail =
     (let st1 = (if get_prop detail ''priceLevelName'' = JStr ''WLP (Base)''
                 then st\<lparr>tradePrice := js_or (get_prop detail ''price'') (num 0),
                         hasTradePrice := True\<rparr>
                 else st)
      in if get_prop detail ''priceLevelName'' = JStr ''LPCP (HKD)''
         then st1\<lparr>retailPrice := js_or (get_prop detail ''price'') (num 0),
                  price := js_or (get_prop detail ''price'') (num 0),
                  currency := JStr ''HKD'',
                  hasRetailPrice := True\<rparr>
         else st1)"

text \<open>The loop of \<open>fetchPriceInformation\<close> over the entries of the price list.\<close>

fun price_loop ::
  "upstream \<Rightarrow> event list \<Rightarrow> jsval \<Rightarrow> jsval list \<Rightarrow> price_state
     \<Rightarrow> (error + price_state) \<times> event list" where
  "price_loop up tr itemId [] st = (Inr st, tr)"
| "price_loop up tr itemId (priceItem # rest) st =
     (if hasTradePrice st \<and> hasRetailPrice st then (Inr st, tr)
      else case link_href priceItem of
             Inl e \<Rightarrow> (Inl e, tr)
           | Inr href \<Rightarrow>
               (case fetchPriceDetail up tr itemId href of
                  (detail, tr') \<Rightarrow>
                    if \<not> truthy detail then price_loop up tr' itemId rest st
                    else price_loop up tr' itemId rest (apply_detail st detail)))"

definition price_data :: "jsval \<Rightarrow> jsval \<Rightarrow> jsval \<Rightarrow> jsval \<Rightarrow> jsval" where
  "price_data p c t r =
     JObj [(''price'', p), (''currency'', c), (''tradePrice'', t), (''retailPrice'', r)]"

definition default_price_data :: jsval where
  "default_price_data = price_data (num 0) (JStr ''HKD'') (num 0) (num 0)"

definition initial_currency :: "jsval \<Rightarrow> error + jsval" where
  "initial_currency itemCurrency =
     (case js_includes itemCurrency ''EUR'' of
        Inl e \<Rightarrow> Inl e
      | Inr True \<Rightarrow> Inr (JStr ''EUR'')
      | Inr False \<Rightarrow>
          (case js_includes itemCurrency ''USD'' of
             Inl e \<Rightarrow> Inl e
           | Inr True \<Rightarrow> Inr (JStr ''USD'')
           | Inr False \<Rightarrow> Inr (JStr ''HKD'')))"

text \<open>The result object after the loop, with the fallback to the trade price.\<close>

definition final_price_data :: "price_state \<Rightarrow> jsval" where
  "final_price_data st =
     price_data (if \<not> truthy (price st) \<and> truthy (tradePrice st) then tradePrice st else price st)
       (currency st) (tradePrice st) (retailPrice st)"

text \<open>\<open>fetchPriceInformation\<close>: every exception inside is caught and gives the default.\<close>

definition fetchPriceInformation ::
  "upstream \<Rightarrow> event list \<Rightarrow> jsval \<Rightarrow> jsval \<Rightarrow> jsval \<Rightarrow> jsval \<times> event list" where
  "fetchPriceInformation up tr itemId priceUrl itemCurrency =
     (case netsuiteRequest up tr (Get (Href priceUrl)) 3 of
        (Inl e, tr1) \<Rightarrow> (default_price_data, tr1)
      | (Inr d, tr1) \<Rightarrow>
          (case initial_currency itemCurrency of
             Inl e \<Rightarrow> (default_price_data, tr1)
           | Inr cur \<Rightarrow>
               (case read_prop d ''items'' of
                  Inl e \<Rightarrow> (default_price_data, tr1)
                | Inr its \<Rightarrow>
                    (case iterate (js_or its (JArr [])) of
                       Inl e \<Rightarrow> (default_price_data, tr1)
                     | Inr priceItems \<Rightarrow>
                         (case price_loop up tr1 itemId priceItems
                                 \<lparr>price = num 0, currency = cur, tradePrice = num 0,
                                  retailPrice = num 0, hasTradePrice = False,
                                  hasRetailPrice = False\<rparr> of
                            (Inl e, tr2) \<Rightarrow> (default_price_data, tr2)
                          | (Inr st, tr2) \<Rightarrow> (final_price_data st, tr2))))))"

text \<open>\<open>fetchLocationDetails\<close>: one location of an item, or \<open>null\<close> when the request fails or
  building the object throws (\<open>d.locationId?.toString()\<close> of a value without a callable
  \<open>toString\<close>).\<close>

definition fetchLocationDetails ::
  "host \<Rightarrow> upstream \<Rightarrow> event list \<Rightarrow> jsval \<Rightarrow> jsval \<Rightarrow> jsval \<times> event list" where
  "fetchLocationDetails h up tr itemId locationUrl =
     (case netsuiteRequest up tr (Get (Href locationUrl)) 3 of
        (Inl e, tr') \<Rightarrow> (JNull, tr')
      | (Inr d, tr') \<Rightarrow>
          if nullish d then (JNull, tr')
          else if \<not> nullish (get_prop d ''locationId'') \<and> \<not> convertible (get_prop d ''locationId'')
            then (JNull, tr')
          else
            (JObj [(''locationId'',
                     js_or (if nullish (get_prop d ''locationId'') then JUndefined
                            else JStr (to_string h (get_prop d ''locationId'')))
                           (JStr [])),
                   (''location'', js_or (get_prop d ''location_display'') (JStr [])),
                   (''quantityOnHand'', js_or (get_prop d ''quantityOnHand'') (num 0)),
                   (''quantityAvailable'', js_or (get_prop d ''quantityAvailable'') (num 0))],
             tr'))"

fun locations_loop ::
  "host \<Rightarrow> upstream \<Rightarrow> event list \<Rightarrow> jsval \<Rightarrow> jsval list \<Rightarrow> jsval list
     \<Rightarrow> (error + jsval list) \<times> event list" where
  "locations_loop h up tr itemId [] locations = (Inr locations, tr)"
| "locations_loop h up tr itemId (item # rest) locations =
     (case link_href item of
        Inl e \<Rightarrow> (Inl e, tr)
      | Inr href \<Rightarrow>
          (case fetchLocationDetails h up tr itemId href of
             (loc, tr') \<Rightarrow>
               locations_loop h up tr' itemId rest
                 (if truthy loc then locations @ [loc] else locations)))"

text \<open>\<open>fetchItemLocations\<close>: the locations that could be fetched, or \<open>[]\<close> on an exception.\<close>

definition fetchItemLocations ::
  "host \<Rightarrow> upstream \<Rightarrow> event list \<Rightarrow> jsval \<Rightarrow> jsval \<Rightarrow> jsval list \<times> event list" where
  "fetchItemLocations h up tr itemId locationsUrl =
     (case netsuiteRequest up tr (Get (Href locationsUrl)) 3 of
        (Inl e, tr1) \<Rightarrow> ([], tr1)
      | (Inr d, tr1) \<Rightarrow>
          (case read_prop d ''items'' of
             Inl e \<Rightarrow> ([], tr1)
           | Inr its \<Rightarrow>
               (case iterate (js_or its (JArr [])) of
                  Inl e \<Rightarrow> ([], tr1)
                | Inr items \<Rightarrow>
                    (case locations_loop h up tr1 itemId items [] of
                       (Inl e, tr2) \<Rightarrow> ([], tr2)
                     | (Inr locations, tr2) \<Rightarrow> (locations, tr2)))))"

text \<open>\<open>v?.links?.length\<close> as a condition, for a reference \<open>v\<close> of the base record.\<close>

definition has_links :: "jsval \<Rightarrow> bool" where
  "has_links v = truthy (opt_prop (opt_prop v ''links'') ''length'')"

text \<open>
  The enrichment of a base record \<open>d = response.data\<close> that both versions of
  \<open>fetchInventoryItemDetail\<close> share: the price fan-out, the location fan-out and the sum of
  the available quantities. \<open>Inl\<close> is an exception, which the caller's \<open>catch\<close> turns into
  \<open>null\<close>.
\<close>

definition price_part ::
  "upstream \<Rightarrow> event list \<Rightarrow> jsval \<Rightarrow> jsval \<Rightarrow> (error + jsval) \<times> event list" where
  "price_part up tr itemId d =
     (case read_prop d ''price'' of
        Inl e \<Rightarrow> (Inl e, tr)
      | Inr p \<Rightarrow>
          if has_links p then
            (case first_href (get_prop p ''links'') of
               Inl e \<Rightarrow> (Inl e, tr)
             | Inr href \<Rightarrow>
                 (case fetchPriceInformation up tr itemId href
                         (opt_prop (get_prop d ''currency'') ''refName'') of
                    (priceData, tr') \<Rightarrow> (Inr priceData, tr')))
          else (Inr default_price_data, tr))"

text \<open>\<open>locationsData.reduce((sum, loc) => sum + (loc.quantityAvailable || 0), acc)\<close>\<close>

fun total_quantity :: "host \<Rightarrow> jsval list \<Rightarrow> jsval \<Rightarrow> error + jsval" where
  "total_quantity h [] acc = Inr acc"
| "total_quantity h (loc # rest) acc =
     (case js_plus h acc (js_or (get_prop loc ''quantityAvailable'') (num 0)) of
        Inl e \<Rightarrow> Inl e
      | Inr s \<Rightarrow> total_quantity h rest s)"

definition locations_part ::
  "host \<Rightarrow> upstream \<Rightarrow> event list \<Rightarrow> jsval \<Rightarrow> jsval
     \<Rightarrow> (error + jsval list \<times> jsval) \<times> event list" where
  "locations_part h up tr itemId d =
     (let l = get_prop d ''locations'' in
      if has_links l then
        (case first_href (get_prop l ''links'') of
           Inl e \<Rightarrow> (Inl e, tr)
         | Inr href \<Rightarrow>
             (case fetchItemLocations h up tr itemId href of
                (locationsData, tr') \<Rightarrow>
                  (case total_quantity h locationsData (num 0) of
                     Inl e \<Rightarrow> (Inl e, tr')
                   | Inr totalQuantity \<Rightarrow> (Inr (locationsData, totalQuantity), tr'))))
      else (Inr ([], num 0), tr))"

definition enrich ::
  "host \<Rightarrow> upstream \<Rightarrow> event list \<Rightarrow> jsval \<Rightarrow> jsval \<Rightarrow> jsval \<times> event list" where
  "enrich h up tr itemId d =
     (case price_part up tr itemId d of
        (Inl e, tr1) \<Rightarrow> (JNull, tr1)
      | (Inr priceData, tr1) \<Rightarrow>
          (case locations_part h up tr1 itemId d of
             (Inl e, tr2) \<Rightarrow> (JNull, tr2)
           | (Inr (locationsData, totalQuantity), tr2) \<Rightarrow>
               (spread_with d
                  [(''priceData'', priceData),
                   (''locationsData'', JArr locationsData),
                   (''totalQuantity'', totalQuantity)],
                tr2)))"

text \<open>\<open>fetchInventoryItemDetail\<close> of the full-catalogue script (\<open>unnamed/part_002\<close>), with
  the early return for an inactive record. The function interpolates the id into the URL
  and into the log line of its \<open>catch\<close> block (as the helpers it calls do); it is modelled
  for an id that converts to a string: both loops interpolate the id into their progress
  line before they call it.\<close>

definition fetchInventoryItemDetail ::
  "host \<Rightarrow> upstream \<Rightarrow> event list \<Rightarrow> jsval \<Rightarrow> jsval \<times> event list" where
  "fetchInventoryItemDetail h up tr itemId =
     (case netsuiteRequest up tr (Get (ItemDetail itemId)) 3 of
        (Inl e, tr1) \<Rightarrow> (JNull, tr1)
      | (Inr d, tr1) \<Rightarrow>
          if opt_prop d ''isInactive'' = JBool True then
            (spread_with d
               [(''isInactive'', JBool True),
                (''priceData'', default_price_data),
                (''locationsData'', JArr []),
                (''totalQuantity'', num 0)],
             tr1)
          else enrich h up tr1 itemId d)"

text \<open>\<open>fetchInventoryItemDetail\<close> of \<open>scripts/syncInventory.js\<close>, which has no test of the
  inactive flag.\<close>

definition fetchInventoryItemDetail_scripts ::
  "host \<Rightarrow> upstream \<Rightarrow> event list \<Rightarrow> jsval \<Rightarrow> jsval \<times> event list" where
  "fetchInventoryItemDetail_scripts h up tr itemId =
     (case netsuiteRequest up tr (Get (ItemDetail itemId)) 3 of
        (Inl e, tr1) \<Rightarrow> (JNull, tr1)
      | (Inr d, tr1) \<Rightarrow> enrich h up tr1 itemId d)"

section \<open>The paginator\<close>

text \<open>
  \<open>fetchAllInventoryItems(options)\<close>. The options are non-negative integers, \<open>maxItems\<close>
  possibly \<open>null\<close>. The payload of a page is any value; the running offset and the total
  that the first page announces are kept as the values that JavaScript computes.
\<close>

record sweep_options =
  batchSize :: nat
  maxItems :: "nat option"
  batchDelay :: nat

definition default_options :: sweep_options where
  "default_options = \<lparr>batchSize = 1000, maxItems = None, batchDelay = 200\<rparr>"

record sweep_state =
  allItems :: "jsval list"
  hasMore :: bool
  offset :: jsval
  totalResults :: jsval
  batchNumber :: nat

text \<open>\<open>maxItems !== null && allItems.length >= maxItems\<close>\<close>

definition at_limit :: "nat option \<Rightarrow> jsval list \<Rightarrow> bool" where
  "at_limit mx items = (case mx of Some m \<Rightarrow> m \<le> length items | None \<Rightarrow> False)"

text \<open>\<open>allItems.concat(items)\<close>: an array contributes its elements, any other value itself.\<close>

definition js_concat :: "jsval list \<Rightarrow> jsval \<Rightarrow> jsval list" where
  "js_concat xs v =
     (case v of JArr ys \<Rightarrow> xs @ ys | JProto Array_prototype \<Rightarrow> xs | x \<Rightarrow> xs @ [v])"

text \<open>What the loop reads from a payload \<open>d = response.data\<close>: \<open>(d || {}).items || []\<close>,
  \<open>(d || {}).hasMore === true\<close> and \<open>(d || {}).totalResults\<close>.\<close>

definition page_items :: "jsval \<Rightarrow> jsval" where
  "page_items d = js_or (get_prop (js_or d (JObj [])) ''items'') (JArr [])"

definition page_hasMore :: "jsval \<Rightarrow> bool" where
  "page_hasMore d = (get_prop (js_or d (JObj [])) ''hasMore'' = JBool True)"

definition page_total :: "jsval \<Rightarrow> jsval" where
  "page_total d = get_prop (js_or d (JObj [])) ''totalResults''"

text \<open>
  The inner \<open>try\<close> block after the response arrived; the first component tells whether it
  threw. The log line of the total interpolates \<open>totalResults\<close>, the progress line divides by
  it, and \<open>offset += items.length\<close> converts both operands: each throws for a value that
  does not convert to a primitive, with the assignments made so far in place.
\<close>

definition after_page :: "host \<Rightarrow> jsval \<Rightarrow> sweep_state \<Rightarrow> bool \<times> sweep_state" where
  "after_page h d st =
     (let items = page_items d;
          st1 = st\<lparr>allItems := js_concat (allItems st) items\<rparr>;
          observed = (totalResults st1 = JNull \<and> page_total d \<noteq> JUndefined);
          st2 = (if observed then st1\<lparr>totalResults := page_total d\<rparr> else st1)
      in if observed \<and> \<not> convertible (totalResults st2) then (True, st2)
         else
           (let st3 = st2\<lparr>hasMore := page_hasMore d\<rparr> in
            case js_plus h (offset st3) (get_prop items ''length'') of
              Inl e \<Rightarrow> (True, st3)
            | Inr off \<Rightarrow>
                (let st4 = st3\<lparr>offset := off\<rparr> in
                 if totalResults st4 \<noteq> JNull \<and> \<not> convertible (totalResults st4)
                 then (True, st4) else (False, st4))))"

text \<open>
  The inner \<open>catch\<close>: \<open>offset += limit; if (offset > (totalResults || 100000)) hasMore = false\<close>.
  An exception here leaves the loop for the outer \<open>catch\<close>.
\<close>

definition after_error :: "host \<Rightarrow> nat \<Rightarrow> sweep_state \<Rightarrow> error + sweep_state" where
  "after_error h limit st =
     (case js_plus h (offset st) (num (of_nat limit)) of
        Inl e \<Rightarrow> Inl e
      | Inr off \<Rightarrow>
          (case js_gt h off (js_or (totalResults st) (num 100000)) of
             Inl e \<Rightarrow> Inl e
           | Inr b \<Rightarrow> Inr (st\<lparr>offset := off, hasMore := (if b then False else hasMore st)\<rparr>)))"

text \<open>\<open>maxItems !== null ? Math.min(limit, maxItems - allItems.length) : limit\<close>\<close>

definition itemsToFetch :: "nat \<Rightarrow> sweep_options \<Rightarrow> sweep_state \<Rightarrow> nat" where
  "itemsToFetch limit opts st =
     (case maxItems opts of Some m \<Rightarrow> min limit (m - length (allItems st)) | None \<Rightarrow> limit)"

text \<open>
  The \<open>while (hasMore)\<close> loop. It need not terminate (an upstream can announce more pages
  forever), so the function is partial: \<open>None\<close> stands for a run that never returns. The
  result is the state at the end of the loop, or the exception that left it.
\<close>

partial_function (option) sweep_loop ::
  "host \<Rightarrow> upstream \<Rightarrow> nat \<Rightarrow> sweep_options \<Rightarrow> event list \<Rightarrow> sweep_state
     \<Rightarrow> ((error + sweep_state) \<times> event list) option" where
  "sweep_loop h up limit opts tr st =
     (if \<not> hasMore st then Some (Inr st, tr)
      else if at_limit (maxItems opts) (allItems st)
        then Some (Inr (st\<lparr>allItems := take (the (maxItems opts)) (allItems st)\<rparr>), tr)
      else if \<not> convertible (offset st) then Some (Inl TypeError, tr)
      else
        (case netsuiteRequest up tr (Get (ItemList (itemsToFetch limit opts st) (offset st))) 3 of
           (Inl e, tr') \<Rightarrow>
             (case after_error h limit (st\<lparr>batchNumber := Suc (batchNumber st)\<rparr>) of
                Inl e' \<Rightarrow> Some (Inl e', tr')
              | Inr st' \<Rightarrow> sweep_loop h up limit opts tr' st')
         | (Inr d, tr') \<Rightarrow>
             (case after_page h d (st\<lparr>batchNumber := Suc (batchNumber st)\<rparr>) of
                (threw, st1) \<Rightarrow>
                  if threw then
                    (case after_error h limit st1 of
                       Inl e' \<Rightarrow> Some (Inl e', tr')
                     | Inr st' \<Rightarrow> sweep_loop h up limit opts tr' st')
                  else
                    sweep_loop h up limit opts
                      (if hasMore st1 \<and> \<not> at_limit (maxItems opts) (allItems st1)
                       then tr' @ [Wait (int (batchDelay opts))] else tr')
                      st1)))"

declare sweep_loop.simps [code]

text \<open>
  After the loop the summary line interpolates \<open>totalResults\<close>; the outer \<open>catch\<close> turns every
  exception into the result \<open>[]\<close>.
\<close>

definition fetchAllInventoryItems ::
  "host \<Rightarrow> upstream \<Rightarrow> event list \<Rightarrow> sweep_options \<Rightarrow> (jsval list \<times> event list) option" where
  "fetchAllInventoryItems h up tr opts =
     (case sweep_loop h up (min (batchSize opts) 1000) opts tr
             \<lparr>allItems = [], hasMore = True, offset = num 0, totalResults = JNull,
              batchNumber = 0\<rparr> of
        None \<Rightarrow> None
      | Some (Inl e, tr') \<Rightarrow> Some ([], tr')
      | Some (Inr st, tr') \<Rightarrow>
          Some (if totalResults st \<noteq> JNull \<and> \<not> convertible (totalResults st) then []
                else allItems st, tr'))"

text \<open>The number of requests in a trace.\<close>

definition requests :: "event list \<Rightarrow> nat" where
  "requests tr = length (filter (\<lambda>e. case e of Request r \<Rightarrow> True | Wait n \<Rightarrow> False) tr)"

section \<open>The transformer\<close>

text \<open>\<open>parseInt(v)\<close> for a value that converts: the value is converted to a string first.\<close>

definition js_parseInt :: "host \<Rightarrow> jsval \<Rightarrow> jsval" where
  "js_parseInt h v =
     (case parseInt_str (to_string h v) of
        Some k \<Rightarrow> num (of_int k)
      | None \<Rightarrow> JNum NaN)"

text \<open>
  The two dates of the \<open>try\<close> block. \<open>new Date(v)\<close> converts an object to a primitive first;
  the exception of a value that does not convert is caught and ends the block, so that the
  date and every date after it stay \<open>null\<close>.
\<close>

definition parsed_dates :: "host \<Rightarrow> jsval \<Rightarrow> jsval \<times> jsval" where
  "parsed_dates h netSuiteData =
     (let c = get_prop netSuiteData ''createdDate'';
          m = get_prop netSuiteData ''lastModifiedDate''
      in if truthy c \<and> \<not> convertible c then (JNull, JNull)
         else (if truthy c then JDate (date_of h c) else JNull,
               if truthy m \<and> convertible m then JDate (date_of h m) else JNull))"

text \<open>
  The fields of the canonical record that both versions of \<open>transformInventoryData\<close>
  build, in the order of the object literal. The function throws
  \<^item> for a record that is \<open>undefined\<close> or \<open>null\<close> (the exception inside its \<open>try\<close> block is
    caught, the read of \<open>netSuiteData.internalId\<close> after it is not);
  \<^item> for a truthy primitive (the operator \<open>in\<close> of \<open>extractNumericValue\<close>);
  \<^item> when one of its log lines interpolates a value that does not convert to a string:
    \<open>netSuiteData.internalId || netSuiteData.id\<close>, \<open>tradePrice\<close> or \<open>retailPrice\<close>.
\<close>

definition transform_fields :: "host \<Rightarrow> jsval \<Rightarrow> error + (string \<times> jsval) list" where
  "transform_fields h netSuiteData =
     (if nullish netSuiteData then Inl TypeError
      else
        let priceData = get_prop netSuiteData ''priceData'';
            price = (if truthy priceData then js_or (get_prop priceData ''price'') (num 0)
                     else num 0);
            currency = (if truthy priceData
                        then js_or (get_prop priceData ''currency'') (JStr ''HKD'')
                        else JStr ''HKD'');
            tradePrice = (if truthy priceData then js_or (get_prop priceData ''tradePrice'') (num 0)
                          else num 0);
            retailPrice = (if truthy priceData
                           then js_or (get_prop priceData ''retailPrice'') (num 0)
                           else num 0);
            locationsData = get_prop netSuiteData ''locationsData'';
            locations = (if truthy locationsData then locationsData else JArr []);
            totalQuantity = (if truthy locationsData
                             then js_or (get_prop netSuiteData ''totalQuantity'') (num 0)
                             else num 0);
            createdDate = fst (parsed_dates h netSuiteData);
            lastModifiedDate = snd (parsed_dates h netSuiteData)
        in
        case extractNumericValue netSuiteData ''averageCost'' of
          Inl e \<Rightarrow> Inl e
        | Inr averageCost \<Rightarrow>
            (case extractNumericValue netSuiteData ''totalValue'' of
               Inl e \<Rightarrow> Inl e
             | Inr totalValue \<Rightarrow>
                 if \<not> convertible (js_or (get_prop netSuiteData ''internalId'')
                                          (get_prop netSuiteData ''id''))
                    \<or> \<not> convertible tradePrice \<or> \<not> convertible retailPrice
                 then Inl TypeError
                 else
                 Inr [(''internalId'',
                        js_or (js_or (get_prop netSuiteData ''internalId'')
                                     (js_parseInt h (get_prop netSuiteData ''id'')))
                              (num 0)),
                      (''omtisId'', extractValue netSuiteData ''custitem_wineid''),
                      (''unitType'', extractValue netSuiteData ''unitsType.refName''),
                      (''itemName'', js_or (get_prop netSuiteData ''itemId'') (JStr [])),
                      (''replenishmentId'', extractValue netSuiteData ''custitem86''),
                      (''purchaseDescription'',
                        js_or (get_prop netSuiteData ''purchaseDescription'') (JStr [])),
                      (''productDescription'', extractValue netSuiteData ''custitem_product_desc''),
                      (''inventoryCategory'',
                        extractValue netSuiteData ''custitem_inventory_category.refName''),
                      (''inventorySubcategory'',
                        extractValue netSuiteData ''custitem_inventory_subcategory.refName''),
                      (''omtisWineCategory'', extractValue netSuiteData ''custitem20.refName''),
                      (''producer'', extractValue netSuiteData ''custitem15.refName''),
                      (''omtisNameDetail'', extractValue netSuiteData ''custitemliveexwinename''),
                      (''omtisName'', extractValue netSuiteData ''custitem26.refName''),
                      (''classification'',
                        extractValue netSuiteData ''custitem_classification.refName''),
                      (''vintage'', extractValue netSuiteData ''custitem3''),
                      (''appellation'',
                        extractValue netSuiteData ''custitem_wine_appellation.refName''),
                      (''bottleSize'', extractValue netSuiteData ''custitem19.refName''),
                      (''subRegion'', extractValue netSuiteData ''custitem_sub_region.refName''),
                      (''itemWeight'', js_or (get_prop netSuiteData ''weight'') (num 0)),
                      (''weightUnit'', extractValue netSuiteData ''weightUnit.refName''),
                      (''region'', extractValue netSuiteData ''custitem_region.refName''),
                      (''country'', extractValue netSuiteData ''custitem9.refName''),
                      (''type'', extractValue netSuiteData ''custitem_type.refName''),
                      (''price'', price),
                      (''currency'', currency),
                      (''pricing'',
                        JObj [(''tradePrice'', tradePrice), (''retailPrice'', retailPrice)]),
                      (''locations'', locations),
                      (''totalQuantity'', totalQuantity),
                      (''averageCost'', JNum averageCost),
                      (''totalValue'', JNum totalValue),
                      (''createdDate'', createdDate),
                      (''lastModifiedDate'', lastModifiedDate)]))"

text \<open>\<open>transformInventoryData\<close> of the full-catalogue script; \<open>now\<close> is the reading of the
  clock for \<open>lastSynced\<close>.\<close>

definition transformInventoryData :: "host \<Rightarrow> jsdate \<Rightarrow> jsval \<Rightarrow> error + jsval" where
  "transformInventoryData h now netSuiteData =
     (case transform_fields h netSuiteData of
        Inl e \<Rightarrow> Inl e
      | Inr fs \<Rightarrow> Inr (JObj (fs @ [(''lastSynced'', JDate now)])))"

text \<open>\<open>transformInventoryData\<close> of \<open>scripts/syncInventory.js\<close>, which also stores the raw
  record.\<close>

definition transformInventoryData_scripts :: "host \<Rightarrow> jsdate \<Rightarrow> jsval \<Rightarrow> error + jsval" where
  "transformInventoryData_scripts h now netSuiteData =
     (case transform_fields h netSuiteData of
        Inl e \<Rightarrow> Inl e
      | Inr fs \<Rightarrow>
          Inr (JObj (fs @ [(''rawData'', stringify h netSuiteData), (''lastSynced'', JDate now)])))"

section \<open>The store\<close>

text \<open>
  Modelled from the spec: the persistent store and its upsert
  (\<open>InventoryItem.findOneAndUpdate\<close> of the object-document mapper), of which the sources
  hold only the calls and the schema. The specification describes the store as a
  collection of canonical records with a unique key and the upsert as a write by unique
  key with insert-or-replace semantics that runs the schema validation before the commit.
  The collection is a list of documents, the key of a document is its \<open>internalId\<close>, and
  the schema validation is a parameter. Fields the store maintains by itself (\<open>_id\<close>, the
  \<open>timestamps\<close> option of the schema) are not represented.
\<close>

type_synonym store = "jsval list"

definition has_id :: "jsval \<Rightarrow> jsval \<Rightarrow> bool" where
  "has_id k doc = (get_prop doc ''internalId'' = k)"

fun replace_or_insert :: "jsval \<Rightarrow> jsval \<Rightarrow> store \<Rightarrow> store" where
  "replace_or_insert k doc [] = [doc]"
| "replace_or_insert k doc (x # xs) =
     (if has_id k x then doc # xs else x # replace_or_insert k doc xs)"

text \<open>\<open>findOneAndUpdate({internalId: doc.internalId}, doc, {upsert: true, new: true,
  runValidators: true})\<close>: the stored document and the new collection, or a rejection.\<close>

definition findOneAndUpdate :: "(jsval \<Rightarrow> bool) \<Rightarrow> jsval \<Rightarrow> store \<Rightarrow> error + jsval \<times> store" where
  "findOneAndUpdate valid doc s =
     (if valid doc then Inr (doc, replace_or_insert (get_prop doc ''internalId'') doc s)
      else Inl DbError)"

text \<open>The collection after an upsert, whether it was accepted or rejected.\<close>

definition upsert :: "(jsval \<Rightarrow> bool) \<Rightarrow> jsval \<Rightarrow> store \<Rightarrow> store" where
  "upsert valid doc s =
     (case findOneAndUpdate valid doc s of Inr (stored, s') \<Rightarrow> s' | Inl e \<Rightarrow> s)"

text \<open>
  The paths that the schema of the model \<open>InventoryItem\<close> declares
  (\<open>models/inventoryItem.js\<close>, in the sources as \<open>unnamed/part_000\<close>), in the order of the
  schema. The schema sets no \<open>strict\<close> option, so the mapper's default applies: a write
  keeps only the paths that the schema declares.
\<close>

definition inventory_schema :: "string list" where
  "inventory_schema =
     [''internalId'', ''itemName'', ''omtisId'', ''omtisWineCategory'', ''omtisNameDetail'',
      ''omtisName'', ''unitType'', ''purchaseDescription'', ''productDescription'',
      ''replenishmentId'', ''inventoryCategory'', ''inventorySubcategory'', ''classification'',
      ''producer'', ''vintage'', ''type'', ''bottleSize'', ''country'', ''region'', ''subRegion'',
      ''appellation'', ''itemWeight'', ''weightUnit'', ''price'', ''currency'', ''pricing'',
      ''averageCost'', ''totalValue'', ''locations'', ''totalQuantity'', ''rawData'',
      ''lastSynced'', ''createdDate'', ''lastModifiedDate'']"

text \<open>\<open>$set\<close> under a schema: the fields of declared paths are set, the others are dropped.\<close>

definition strict_set :: "string list \<Rightarrow> (string \<times> jsval) list \<Rightarrow> jsval \<Rightarrow> jsval" where
  "strict_set paths kvs doc =
     (let kept = filter (\<lambda>kv. fst kv \<in> set paths) kvs
      in if kept = [] then doc else spread_with doc kept)"

text \<open>\<open>updateOne({internalId: k}, {$set: {f1: v1, ..., fn: vn}})\<close> of a model with the given
  schema paths: the first document of the key is updated; no document of the key, no
  change.\<close>

fun updateOne :: "string list \<Rightarrow> jsval \<Rightarrow> (string \<times> jsval) list \<Rightarrow> store \<Rightarrow> store" where
  "updateOne paths k kvs [] = []"
| "updateOne paths k kvs (x # xs) =
     (if has_id k x then strict_set paths kvs x # xs else x # updateOne paths k kvs xs)"

definition stored_ids :: "store \<Rightarrow> jsval set" where
  "stored_ids s = (\<lambda>doc. get_prop doc ''internalId'') ` set s"

section \<open>The orchestrator\<close>

text \<open>
  The state of a run: the counters and lists of the loop, the store and the trace of
  requests. Console output and the error log file are not represented, but building a log
  line can throw, and the model follows each line that interpolates a value of a payload.
\<close>

datatype failure = Fetch_failed | Thrown error

record run_state =
  processedCount :: nat
  savedCount :: nat
  skippedInactiveCount :: nat
  errors :: "(jsval \<times> failure) list"
  savedItems :: "jsval list"
  db :: store
  trace :: "event list"

definition add_error :: "jsval \<Rightarrow> failure \<Rightarrow> run_state \<Rightarrow> run_state" where
  "add_error itemId f st = st\<lparr>errors := errors st @ [(itemId, f)]\<rparr>"

text \<open>
  The log line of a name: \<open>displayName.length > 40 ? displayName.substring(0, 40) + '...' :
  displayName\<close>, interpolated into the line. Only a string has the method \<open>substring\<close>.
\<close>

definition short_name_log :: "host \<Rightarrow> jsval \<Rightarrow> error option" where
  "short_name_log h displayName =
     (case js_gt h (get_prop displayName ''length'') (num 40) of
        Inl e \<Rightarrow> Some e
      | Inr longer \<Rightarrow>
          if longer then (case displayName of JStr s \<Rightarrow> None | v \<Rightarrow> Some TypeError)
          else if convertible displayName then None else Some TypeError)"

text \<open>\<open>name || `Item ${itemId}`\<close> for an id that converts.\<close>

definition display_name :: "host \<Rightarrow> jsval \<Rightarrow> jsval \<Rightarrow> jsval" where
  "display_name h name itemId = js_or name (JStr (''Item '' @ to_string h itemId))"

text \<open>\<open>if (v > 0) console.log(`${v.toFixed(2)}`)\<close>: only a number has the method \<open>toFixed\<close>.\<close>

definition fixed_log :: "host \<Rightarrow> jsval \<Rightarrow> error option" where
  "fixed_log h v =
     (case js_gt h v (num 0) of
        Inl e \<Rightarrow> Some e
      | Inr positive \<Rightarrow>
          if positive then (case v of JNum n \<Rightarrow> None | x \<Rightarrow> Some TypeError) else None)"

text \<open>The log lines of a saved record, inside the \<open>try\<close> of the write.\<close>

definition saved_log :: "host \<Rightarrow> jsval \<Rightarrow> jsval \<Rightarrow> error option" where
  "saved_log h itemId transformedData =
     (case short_name_log h (display_name h (get_prop transformedData ''itemName'') itemId) of
        Some e \<Rightarrow> Some e
      | None \<Rightarrow>
          (case fixed_log h (get_prop transformedData ''averageCost'') of
             Some e \<Rightarrow> Some e
           | None \<Rightarrow> fixed_log h (get_prop transformedData ''totalValue'')))"

text \<open>Step 5 of both loops, for an id that converts: the inner \<open>try\<close> around the write and
  the log lines of a saved record, with its \<open>catch\<close>.\<close>

definition save_item ::
  "host \<Rightarrow> (jsval \<Rightarrow> bool) \<Rightarrow> jsval \<Rightarrow> jsval \<Rightarrow> run_state \<Rightarrow> run_state" where
  "save_item h valid itemId transformedData st =
     (case findOneAndUpdate valid transformedData (db st) of
        Inl e \<Rightarrow> add_error itemId (Thrown e) st
      | Inr (stored, s') \<Rightarrow>
          (let st' = st\<lparr>db := s', savedCount := Suc (savedCount st),
                        savedItems := savedItems st @ [transformedData]\<rparr>
           in case saved_log h itemId transformedData of
                Some e \<Rightarrow> add_error itemId (Thrown e) st'
              | None \<Rightarrow> st'))"

text \<open>
  The body of the loop of \<open>syncAllInventory\<close> for one candidate. Reading \<open>item.id\<close> and the
  progress line that interpolates the id come before the \<open>try\<close> block: an exception there
  (\<open>Some e\<close>) leaves the loop. Every exception inside the \<open>try\<close> block is caught and recorded.
\<close>

definition process_all ::
  "host \<Rightarrow> upstream \<Rightarrow> (jsval \<Rightarrow> bool) \<Rightarrow> jsval \<Rightarrow> run_state \<Rightarrow> error option \<times> run_state" where
  "process_all h up valid item st0 =
     (case read_prop item ''id'' of
        Inl e \<Rightarrow> (Some e, st0)
      | Inr itemId \<Rightarrow>
          (let st = st0\<lparr>processedCount := Suc (processedCount st0)\<rparr> in
           if \<not> convertible itemId then (Some TypeError, st)
           else
             case fetchInventoryItemDetail h up (trace st) itemId of
               (detailedData, tr') \<Rightarrow>
                 (let st1 = st\<lparr>trace := tr'\<rparr> in
                  if truthy detailedData then
                    (if get_prop detailedData ''isInactive'' = JBool True then
                       (let st2 = st1\<lparr>skippedInactiveCount := Suc (skippedInactiveCount st1)\<rparr>
                        in case short_name_log h
                                  (display_name h (get_prop detailedData ''itemId'') itemId) of
                             Some e \<Rightarrow> (None, add_error itemId (Thrown e) st2)
                           | None \<Rightarrow> (None, st2))
                     else
                       (case transformInventoryData h (clock h tr') detailedData of
                          Inl e \<Rightarrow> (None, add_error itemId (Thrown e) st1)
                        | Inr transformedData \<Rightarrow>
                            (None, save_item h valid itemId transformedData st1)))
                  else (None, add_error itemId Fetch_failed st1))))"

text \<open>
  The body of the loop of \<open>syncInventory\<close> in \<open>scripts/syncInventory.js\<close>: only the write
  is inside a \<open>try\<close>; an exception of the transformer leaves the loop, like one of reading
  the id or of the progress line. The counter is incremented at the end, followed by a
  pause of 500 ms.
\<close>

definition process_incremental ::
  "host \<Rightarrow> upstream \<Rightarrow> (jsval \<Rightarrow> bool) \<Rightarrow> jsval \<Rightarrow> run_state \<Rightarrow> error option \<times> run_state" where
  "process_incremental h up valid item st =
     (case read_prop item ''id'' of
        Inl e \<Rightarrow> (Some e, st)
      | Inr itemId \<Rightarrow>
          if \<not> convertible itemId then (Some TypeError, st)
          else
            case fetchInventoryItemDetail_scripts h up (trace st) itemId of
              (detailedData, tr') \<Rightarrow>
                (let st1 = st\<lparr>trace := tr'\<rparr>;
                     finish = (\<lambda>s. s\<lparr>processedCount := Suc (processedCount s),
                                      trace := trace s @ [Wait 500]\<rparr>)
                 in if truthy detailedData then
                      (case transformInventoryData_scripts h (clock h tr') detailedData of
                         Inl e \<Rightarrow> (Some e, st1)
                       | Inr transformedData \<Rightarrow>
                           (None, finish (save_item h valid itemId transformedData st1)))
                    else (None, finish (add_error itemId Fetch_failed st1))))"

text \<open>\<open>for (const item of items) { ... }\<close>: an exception of the body ends the loop.\<close>

fun for_each_item ::
  "(jsval \<Rightarrow> run_state \<Rightarrow> error option \<times> run_state) \<Rightarrow> jsval list \<Rightarrow> run_state
     \<Rightarrow> error option \<times> run_state" where
  "for_each_item body [] st = (None, st)"
| "for_each_item body (item # rest) st =
     (case body item st of
        (Some e, st') \<Rightarrow> (Some e, st')
      | (None, st') \<Rightarrow> for_each_item body rest st')"

subsection \<open>The financial summary\<close>

text \<open>\<open>items.forEach(item => ...)\<close> with a running state: an exception ends the iteration.\<close>

fun fold_items :: "(jsval \<Rightarrow> 's \<Rightarrow> error + 's) \<Rightarrow> jsval list \<Rightarrow> 's \<Rightarrow> error + 's" where
  "fold_items f [] s = Inr s"
| "fold_items f (x # xs) s = (case f x s of Inl e \<Rightarrow> Inl e | Inr s' \<Rightarrow> fold_items f xs s')"

text \<open>\<open>if (v > 0) { total += v; count++ }\<close> on a pair of a running total and a count.\<close>

definition add_if_positive :: "host \<Rightarrow> jsval \<Rightarrow> jsval \<times> nat \<Rightarrow> error + jsval \<times> nat" where
  "add_if_positive h v acc =
     (case js_gt h v (num 0) of
        Inl e \<Rightarrow> Inl e
      | Inr positive \<Rightarrow>
          if positive then
            (case js_plus h (fst acc) v of
               Inl e \<Rightarrow> Inl e
             | Inr s \<Rightarrow> Inr (s, Suc (snd acc)))
          else Inr acc)"

text \<open>The body of the first loop: \<open>item.averageCost && item.averageCost > 0\<close> and the same for
  \<open>item.totalValue\<close>.\<close>

definition cost_step ::
  "host \<Rightarrow> jsval \<Rightarrow> (jsval \<times> nat) \<times> (jsval \<times> nat) \<Rightarrow> error + (jsval \<times> nat) \<times> (jsval \<times> nat)" where
  "cost_step h item acc =
     and_then (read_prop item ''averageCost'') (\<lambda>averageCost.
     and_then (if truthy averageCost then add_if_positive h averageCost (fst acc)
               else Inr (fst acc)) (\<lambda>cost.
     and_then (read_prop item ''totalValue'') (\<lambda>totalValue.
     and_then (if truthy totalValue then add_if_positive h totalValue (snd acc)
               else Inr (snd acc)) (\<lambda>val. Inr (cost, val)))))"

text \<open>The body of the second loop: \<open>item.pricing && item.pricing.tradePrice > 0\<close> and the same
  for \<open>retailPrice\<close>.\<close>

definition price_step ::
  "host \<Rightarrow> jsval \<Rightarrow> (jsval \<times> nat) \<times> (jsval \<times> nat) \<Rightarrow> error + (jsval \<times> nat) \<times> (jsval \<times> nat)" where
  "price_step h item acc =
     and_then (read_prop item ''pricing'') (\<lambda>pricing.
     and_then (if truthy pricing then add_if_positive h (get_prop pricing ''tradePrice'') (fst acc)
               else Inr (fst acc)) (\<lambda>trade.
     and_then (if truthy pricing then add_if_positive h (get_prop pricing ''retailPrice'') (snd acc)
               else Inr (snd acc)) (\<lambda>retail. Inr (trade, retail))))"

text \<open>\<open>if (count > 0) console.log(`${total.toFixed(2)} ...`)\<close>: after \<open>total += v\<close> with a
  string \<open>v\<close> the total is a string, which has no method \<open>toFixed\<close>.\<close>

definition fixed_total :: "jsval \<times> nat \<Rightarrow> bool" where
  "fixed_total acc = (snd acc = 0 \<or> (case fst acc of JNum n \<Rightarrow> True | v \<Rightarrow> False))"

text \<open>\<open>[...items].filter(item => item.totalValue > 0)\<close>, each item with the number of its
  value.\<close>

definition keep_positive ::
  "host \<Rightarrow> jsval \<Rightarrow> (jsnum \<times> jsval) list \<Rightarrow> error + (jsnum \<times> jsval) list" where
  "keep_positive h item kept =
     and_then (read_prop item ''totalValue'') (\<lambda>totalValue.
     and_then (js_gt h totalValue (num 0)) (\<lambda>positive.
       Inr (if positive then kept @ [(to_number (to_primitive h totalValue), item)] else kept)))"

text \<open>\<open>.sort((a, b) => b.totalValue - a.totalValue)\<close>: descending, and stable.\<close>

fun insert_desc :: "jsnum \<times> jsval \<Rightarrow> (jsnum \<times> jsval) list \<Rightarrow> (jsnum \<times> jsval) list" where
  "insert_desc x [] = [x]"
| "insert_desc x (y # ys) =
     (if num_less (fst y) (fst x) then x # y # ys else y # insert_desc x ys)"

definition sort_desc :: "(jsnum \<times> jsval) list \<Rightarrow> (jsnum \<times> jsval) list" where
  "sort_desc xs = foldl (\<lambda>ys x. insert_desc x ys) [] xs"

text \<open>The line of a top item: \<open>item.itemName?.substring(0, 40)\<close> and
  \<open>item.totalValue.toFixed(2)\<close>.\<close>

definition top_line :: "jsval \<Rightarrow> bool" where
  "top_line item =
     ((case get_prop item ''itemName'' of
         JUndefined \<Rightarrow> True | JNull \<Rightarrow> True | JStr s \<Rightarrow> True | v \<Rightarrow> False)
      \<and> (case get_prop item ''totalValue'' of JNum n \<Rightarrow> True | v \<Rightarrow> False))"

text \<open>\<open>logFinancialSummary(items)\<close>: \<open>Some e\<close> when it throws.\<close>

definition logFinancialSummary :: "host \<Rightarrow> jsval list \<Rightarrow> error option" where
  "logFinancialSummary h items =
     (if items = [] then None
      else
        case fold_items (cost_step h) items ((num 0, 0), (num 0, 0)) of
          Inl e \<Rightarrow> Some e
        | Inr costs \<Rightarrow>
            (case fold_items (price_step h) items ((num 0, 0), (num 0, 0)) of
               Inl e \<Rightarrow> Some e
             | Inr prices \<Rightarrow>
                 if \<not> fixed_total (fst prices) \<or> \<not> fixed_total (snd prices)
                    \<or> \<not> fixed_total (fst costs) \<or> \<not> fixed_total (snd costs)
                 then Some TypeError
                 else
                   (case fold_items (keep_positive h) items [] of
                      Inl e \<Rightarrow> Some e
                    | Inr kept \<Rightarrow>
                        if list_all top_line (map snd (take 3 (sort_desc kept))) then None
                        else Some TypeError)))"

subsection \<open>The two runs\<close>

record counts =
  processed :: nat
  saved :: nat
  skippedInactive :: nat
  failed :: nat
  reported_errors :: "(jsval \<times> failure) list"

datatype report =
    Authentication_failed       \<comment> \<open>\<open>{success: false, error: "Authentication failed. ..."}\<close>\<close>
  | No_items                    \<comment> \<open>\<open>{success: true, processed: 0, saved: 0}\<close>\<close>
  | Aborted error               \<comment> \<open>\<open>{success: false, error: error.message}\<close> of the outer \<open>catch\<close>\<close>
  | Completed counts            \<comment> \<open>\<open>{success: true, processed, saved, failed, errors, ...}\<close>\<close>

definition testAuthentication :: "upstream \<Rightarrow> event list \<Rightarrow> bool \<times> event list" where
  "testAuthentication up tr =
     (case netsuiteRequest up tr (Get AuthProbe) 3 of
        (Inl e, tr') \<Rightarrow> (False, tr')
      | (Inr d, tr') \<Rightarrow> (True, tr'))"

definition start_state :: "store \<Rightarrow> event list \<Rightarrow> run_state" where
  "start_state s tr = \<lparr>processedCount = 0, savedCount = 0, skippedInactiveCount = 0,
                       errors = [], savedItems = [], db = s, trace = tr\<rparr>"

text \<open>
  The end of a run: \<open>if (savedItems.length > 0) logFinancialSummary(savedItems)\<close>, then the
  report is built. The sums of the report repeat the comparisons and additions that the
  summary has made on the same values; \<open>cap\<close> is the number of errors that the report
  lists.
\<close>

definition finish_run ::
  "host \<Rightarrow> nat option \<Rightarrow> error option \<times> run_state \<Rightarrow> report \<times> run_state" where
  "finish_run h cap res =
     (case res of
        (Some e, st) \<Rightarrow> (Aborted e, st)
      | (None, st) \<Rightarrow>
          (case logFinancialSummary h (savedItems st) of
             Some e \<Rightarrow> (Aborted e, st)
           | None \<Rightarrow>
               (Completed \<lparr>processed = processedCount st, saved = savedCount st,
                           skippedInactive = skippedInactiveCount st,
                           failed = length (errors st),
                           reported_errors =
                             (case cap of Some c \<Rightarrow> take c (errors st) | None \<Rightarrow> errors st)\<rparr>,
                st)))"

text \<open>
  \<open>syncAllInventory(options)\<close>. The result is \<open>None\<close> when the paginator never returns.
\<close>

definition syncAllInventory ::
  "host \<Rightarrow> upstream \<Rightarrow> (jsval \<Rightarrow> bool) \<Rightarrow> sweep_options \<Rightarrow> store \<Rightarrow> event list
     \<Rightarrow> (report \<times> run_state) option" where
  "syncAllInventory h up valid opts s tr =
     (case testAuthentication up tr of
        (False, tr1) \<Rightarrow> Some (Authentication_failed, start_state s tr1)
      | (True, tr1) \<Rightarrow>
          (case fetchAllInventoryItems h up tr1 opts of
             None \<Rightarrow> None
           | Some (items, tr2) \<Rightarrow>
               if items = [] then Some (No_items, start_state s tr2)
               else Some (finish_run h (Some 50)
                            (for_each_item (process_all h up valid) items
                               (start_state s tr2)))))"

text \<open>\<open>fetchInventoryItems(date)\<close>: \<open>response.data?.items || []\<close>, or \<open>[]\<close> when the request
  fails; \<open>date\<close> is the date after the default of the configuration has been applied.\<close>

definition fetchInventoryItems :: "upstream \<Rightarrow> event list \<Rightarrow> jsval \<Rightarrow> jsval \<times> event list" where
  "fetchInventoryItems up tr date =
     (case netsuiteRequest up tr (Get (ItemsModifiedAfter date)) 3 of
        (Inl e, tr') \<Rightarrow> (JArr [], tr')
      | (Inr d, tr') \<Rightarrow> (js_or (opt_prop d ''items'') (JArr []), tr'))"

text \<open>\<open>for (const item of items.slice(0, limit))\<close>: an array and a string have the method
  \<open>slice\<close>, and the slice of a string is iterated character by character.\<close>

definition sliced :: "jsval \<Rightarrow> nat \<Rightarrow> error + jsval list" where
  "sliced items limit =
     (case items of
        JArr xs \<Rightarrow> Inr (take limit xs)
      | JStr s \<Rightarrow> Inr (map (\<lambda>c. JStr [c]) (take limit s))
      | JProto Array_prototype \<Rightarrow> Inr []
      | v \<Rightarrow> Inl TypeError)"

text \<open>\<open>syncInventory(limit, date)\<close> of \<open>scripts/syncInventory.js\<close>, for a limit that is a
  non-negative integer.\<close>

definition syncInventory ::
  "host \<Rightarrow> upstream \<Rightarrow> (jsval \<Rightarrow> bool) \<Rightarrow> nat \<Rightarrow> jsval \<Rightarrow> store \<Rightarrow> event list
     \<Rightarrow> report \<times> run_state" where
  "syncInventory h up valid limit date s tr =
     (case testAuthentication up tr of
        (False, tr1) \<Rightarrow> (Authentication_failed, start_state s tr1)
      | (True, tr1) \<Rightarrow>
          (case fetchInventoryItems up tr1 date of
             (items, tr2) \<Rightarrow>
               if get_prop items ''length'' = num 0 then (No_items, start_state s tr2)
               else
                 (case sliced items limit of
                    Inl e \<Rightarrow> (Aborted e, start_state s tr2)
                  | Inr itemsToProcess \<Rightarrow>
                      finish_run h None
                        (for_each_item (process_incremental h up valid) itemsToProcess
                           (start_state s tr2)))))"

section \<open>The movement pass\<close>

text \<open>\<open>response.data?.items || response.data || []\<close>\<close>

definition movement_rows :: "jsval \<Rightarrow> jsval" where
  "movement_rows d = js_or (js_or (opt_prop d ''items'') d) (JArr [])"

text \<open>\<open>fetchMovementDataForItems(itemIds)\<close>: no request for an empty batch; \<open>itemIds.join\<close>
  converts every id that is not \<open>undefined\<close> or \<open>null\<close> to a string; an exception is logged
  and thrown again.\<close>

definition fetchMovementDataForItems ::
  "upstream \<Rightarrow> event list \<Rightarrow> jsval list \<Rightarrow> (error + jsval) \<times> event list" where
  "fetchMovementDataForItems up tr itemIds =
     (if itemIds = [] then (Inr (JArr []), tr)
      else if \<not> convertible (JArr itemIds) then (Inl TypeError, tr)
      else case netsuiteRequest up tr (Post (SuiteQL itemIds)) 3 of
             (Inl e, tr') \<Rightarrow> (Inl e, tr')
           | (Inr d, tr') \<Rightarrow> (Inr (movement_rows d), tr'))"

record movement =
  last_movement_date :: jsval
  moved_last_12_months :: bool

text \<open>The entry of the movement map that a row of the result gives; the parser of the date
  can throw.\<close>

definition row_entry :: "jsval \<Rightarrow> error + movement" where
  "row_entry item =
     (let moved = (get_prop item ''moved_last_12_months'' = JStr ''1''
                   \<or> get_prop item ''moved_last_12_months'' = num 1
                   \<or> get_prop item ''moved_last_12_months'' = JBool True)
      in case (if truthy (get_prop item ''last_movement_date'')
               then parseNetSuiteDate (get_prop item ''last_movement_date'')
               else Inr JNull) of
           Inl e \<Rightarrow> Inl e
         | Inr lastMovementDate \<Rightarrow>
             Inr \<lparr>last_movement_date = (if moved then lastMovementDate else JNull),
                  moved_last_12_months = moved\<rparr>)"

text \<open>\<open>parseInt(item.item_id)\<close>; \<open>None\<close> is \<open>NaN\<close>.\<close>

definition row_id :: "host \<Rightarrow> jsval \<Rightarrow> error + int option" where
  "row_id h item =
     (if convertible (get_prop item ''item_id'')
      then Inr (parseInt_str (to_string h (get_prop item ''item_id'')))
      else Inl TypeError)"

text \<open>\<open>movementData.forEach(item => ...)\<close> filling the map; reading \<open>item.item_id\<close> of a row
  that is \<open>undefined\<close> or \<open>null\<close> throws.\<close>

fun build_map :: "host \<Rightarrow> jsval list \<Rightarrow> (int \<rightharpoonup> movement) \<Rightarrow> error + (int \<rightharpoonup> movement)" where
  "build_map h [] m = Inr m"
| "build_map h (item # rest) m =
     (if nullish item then Inl TypeError
      else case row_id h item of
             Inl e \<Rightarrow> Inl e
           | Inr None \<Rightarrow> build_map h rest m
           | Inr (Some k) \<Rightarrow>
               (case row_entry item of
                  Inl e \<Rightarrow> Inl e
                | Inr mv \<Rightarrow> build_map h rest (m(k \<mapsto> mv))))"

text \<open>\<open>movementMap.get(itemId)\<close>: the keys of the map are numbers, so only a stored id that
  is the same number finds its entry.\<close>

definition map_get :: "(int \<rightharpoonup> movement) \<Rightarrow> jsval \<Rightarrow> movement option" where
  "map_get m itemId =
     (case itemId of
        JNum (Fin q) \<Rightarrow> (if of_int \<lfloor>q\<rfloor> = q then m \<lfloor>q\<rfloor> else None)
      | v \<Rightarrow> None)"

record movement_state =
  m_db :: store
  updatedCount :: nat
  errorCount :: nat
  m_errors :: "(jsval \<times> failure) list"

text \<open>The fields that the handler sends to the store for an id.\<close>

definition movement_fields :: "(int \<rightharpoonup> movement) \<Rightarrow> jsval \<Rightarrow> (string \<times> jsval) list" where
  "movement_fields m itemId =
     (case map_get m itemId of
        Some mv \<Rightarrow> [(''last_movement_date'', last_movement_date mv),
                    (''moved_last_12_months'', JBool (moved_last_12_months mv))]
      | None \<Rightarrow> [(''last_movement_date'', JNull), (''moved_last_12_months'', JBool False)])"

text \<open>The update of one stored item, against a model with the given schema paths;
  \<open>write_fails\<close> tells for which ids the store throws (the \<open>catch\<close> then counts and records
  the error).\<close>

definition update_item ::
  "string list \<Rightarrow> (jsval \<Rightarrow> bool) \<Rightarrow> (int \<rightharpoonup> movement) \<Rightarrow> jsval \<Rightarrow> movement_state
     \<Rightarrow> movement_state" where
  "update_item paths write_fails m itemId st =
     (if write_fails itemId
      then st\<lparr>errorCount := Suc (errorCount st),
              m_errors := m_errors st @ [(itemId, Thrown DbError)]\<rparr>
      else st\<lparr>m_db := updateOne paths itemId (movement_fields m itemId) (m_db st),
              updatedCount := (case map_get m itemId of
                                 Some mv \<Rightarrow> (if moved_last_12_months mv then Suc (updatedCount st)
                                             else updatedCount st)
                               | None \<Rightarrow> updatedCount st)\<rparr>)"

text \<open>The rows that \<open>movementData.forEach\<close> visits: only an array has \<open>forEach\<close>.\<close>

definition visited :: "jsval \<Rightarrow> error + jsval list" where
  "visited movementData =
     (case movementData of
        JArr rows \<Rightarrow> Inr rows
      | JProto Array_prototype \<Rightarrow> Inr []
      | v \<Rightarrow> Inl TypeError)"

text \<open>
  One batch of the update-movement handler, from the fetch of the movement data to the
  end of the updates. An exception (\<open>Some e\<close>) leaves the batch for the handler's
  \<open>catch\<close>.
\<close>

definition movement_batch ::
  "host \<Rightarrow> upstream \<Rightarrow> string list \<Rightarrow> (jsval \<Rightarrow> bool) \<Rightarrow> event list \<Rightarrow> jsval list
     \<Rightarrow> movement_state \<Rightarrow> error option \<times> movement_state \<times> event list" where
  "movement_batch h up paths write_fails tr itemIds st =
     (case fetchMovementDataForItems up tr itemIds of
        (Inl e, tr') \<Rightarrow> (Some e, st, tr')
      | (Inr movementData, tr') \<Rightarrow>
          (case visited movementData of
             Inl e \<Rightarrow> (Some e, st, tr')
           | Inr rows \<Rightarrow>
               (case build_map h rows Map.empty of
                  Inl e \<Rightarrow> (Some e, st, tr')
                | Inr m \<Rightarrow>
                    (None, foldl (\<lambda>s i. update_item paths write_fails m i s) st itemIds, tr'))))"

text \<open>The movement fields of the stored document of an id.\<close>

definition movement_of :: "store \<Rightarrow> jsval \<Rightarrow> (jsval \<times> jsval) option" where
  "movement_of s i =
     map_option (\<lambda>doc. (get_prop doc ''last_movement_date'', get_prop doc ''moved_last_12_months''))
       (find (has_id i) s)"

section \<open>Vocabulary of the statements, and examples\<close>

subsection \<open>Vocabulary for the price selection\<close>

text \<open>An entry of a price list that links to the detail at \<open>u\<close>.\<close>

definition price_item :: "jsval \<Rightarrow> jsval" where
  "price_item u = JObj [(''links'', JArr [JObj [(''href'', u)]])]"

text \<open>A fetched detail that is the level of the given name, and the price the loop takes
  from a detail (\<open>detail.price || 0\<close>).\<close>

definition is_level :: "string \<Rightarrow> jsval \<Rightarrow> bool" where
  "is_level name d = (truthy d \<and> get_prop d ''priceLevelName'' = JStr name)"

definition level_price :: "jsval \<Rightarrow> jsval" where
  "level_price d = js_or (get_prop d ''price'') (num 0)"

text \<open>The entry \<open>item\<close> of a price list links to a detail whose fetch yields \<open>d\<close>, whatever
  happened before (\<open>null\<close> when the fetch fails).\<close>

definition fetched :: "upstream \<Rightarrow> jsval \<Rightarrow> jsval \<Rightarrow> jsval \<Rightarrow> bool" where
  "fetched up itemId item d =
     (\<exists>u. link_href item = Inr u \<and> (\<forall>tr. fst (fetchPriceDetail up tr itemId u) = d))"

definition once :: "string \<Rightarrow> jsval list \<Rightarrow> bool" where
  "once name ds = (length (filter (is_level name) ds) \<le> 1)"

text \<open>The loop of \<open>fetchPriceInformation\<close> on details that are already fetched.\<close>

fun scan_levels :: "jsval list \<Rightarrow> price_state \<Rightarrow> price_state" where
  "scan_levels [] st = st"
| "scan_levels (d # ds) st =
     (if hasTradePrice st \<and> hasRetailPrice st then st
      else if \<not> truthy d then scan_levels ds st
      else scan_levels ds (apply_detail st d))"

definition initial_state :: "jsval \<Rightarrow> price_state" where
  "initial_state cur = \<lparr>price = num 0, currency = cur, tradePrice = num 0, retailPrice = num 0,
                          hasTradePrice = False, hasRetailPrice = False\<rparr>"

text \<open>What the scan computes when each of the two names occurs at most once.\<close>

definition closed_form :: "jsval list \<Rightarrow> price_state \<Rightarrow> price_state" where
  "closed_form ds st =
     st\<lparr>tradePrice := (case find (is_level ''WLP (Base)'') ds of
                          Some d \<Rightarrow> level_price d | None \<Rightarrow> tradePrice st),
        hasTradePrice := (hasTradePrice st \<or> (\<exists>d\<in>set ds. is_level ''WLP (Base)'' d)),
        retailPrice := (case find (is_level ''LPCP (HKD)'') ds of
                          Some d \<Rightarrow> level_price d | None \<Rightarrow> retailPrice st),
        price := (case find (is_level ''LPCP (HKD)'') ds of
                          Some d \<Rightarrow> level_price d | None \<Rightarrow> price st),
        currency := (if \<exists>d\<in>set ds. is_level ''LPCP (HKD)'' d then JStr ''HKD'' else currency st),
        hasRetailPrice := (hasRetailPrice st \<or> (\<exists>d\<in>set ds. is_level ''LPCP (HKD)'' d))\<rparr>"

subsection \<open>An upstream and a host for the examples\<close>

text \<open>
  Item 7 is inactive, priced in euros, and refers to a price list with the two levels
  \<open>WLP (Base)\<close> at 100 and \<open>LPCP (HKD)\<close> at 120; item 8 is the same record without the
  inactive flag; \<open>/empty\<close> is a price list without entries.
\<close>

definition demo_record :: "string \<Rightarrow> (string \<times> jsval) list \<Rightarrow> jsval" where
  "demo_record i flags =
     JObj ([(''id'', JStr i)] @ flags @
           [(''price'', JObj [(''links'', JArr [JObj [(''href'', JStr ''/price'')]])]),
            (''currency'', JObj [(''refName'', JStr ''Euro (EUR)'')])])"

definition demo_wlp :: jsval where
  "demo_wlp = JObj [(''priceLevelName'', JStr ''WLP (Base)''), (''price'', num 100)]"

definition demo_lpcp :: jsval where
  "demo_lpcp = JObj [(''priceLevelName'', JStr ''LPCP (HKD)''), (''price'', num 120)]"

definition demo_upstream :: upstream where
  "demo_upstream tr r =
     (if r = Get (ItemDetail (JStr ''7''))
        then Response (demo_record ''7'' [(''isInactive'', JBool True)])
      else if r = Get (ItemDetail (JStr ''8'')) then Response (demo_record ''8'' [])
      else if r = Get (Href (JStr ''/price''))
        then Response (JObj [(''items'', JArr [price_item (JStr ''/p1''), price_item (JStr ''/p2'')])])
      else if r = Get (Href (JStr ''/p1'')) then Response demo_wlp
      else if r = Get (Href (JStr ''/p2'')) then Response demo_lpcp
      else if r = Get (Href (JStr ''/empty'')) then Response (JObj [(''items'', JArr [])])
      else Failure (Some 404))"

text \<open>An upstream that answers the requests in turn with the given outcomes.\<close>

definition paged_upstream :: "outcome list \<Rightarrow> upstream" where
  "paged_upstream outs tr r =
     (if requests tr < length outs then outs ! requests tr else Failure (Some 404))"

definition demo_page :: "jsval list \<Rightarrow> bool \<Rightarrow> rat \<Rightarrow> jsval" where
  "demo_page xs b n = JObj [(''items'', JArr xs), (''hasMore'', JBool b), (''totalResults'', num n)]"

text \<open>An upstream that holds a catalogue and answers a listing request with the page of the
  requested offset and width.\<close>

definition listing_page :: "jsval list \<Rightarrow> nat \<Rightarrow> nat \<Rightarrow> jsval" where
  "listing_page catalogue n off =
     demo_page (take n (drop off catalogue)) (off + n < length catalogue)
       (of_nat (length catalogue))"

definition catalogue_upstream :: "jsval list \<Rightarrow> upstream" where
  "catalogue_upstream catalogue tr r =
     (case r of
        Get (ItemList n (JNum (Fin q))) \<Rightarrow>
          (if 0 \<le> q \<and> of_int \<lfloor>q\<rfloor> = q then Response (listing_page catalogue n (nat \<lfloor>q\<rfloor>))
           else Failure (Some 400))
      | _ \<Rightarrow> Failure (Some 404))"

definition demo_item :: "string \<Rightarrow> jsval" where
  "demo_item i = JObj [(''id'', JStr i)]"

definition demo_host :: host where
  "demo_host = \<lparr>num_str = (\<lambda>n. ''0''), date_str = (\<lambda>d. ''Invalid Date''),
                 date_val = (\<lambda>d. NaN), date_of = (\<lambda>v. Invalid_Date),
                 clock = (\<lambda>tr. Instant (int (length tr))), stringify = (\<lambda>v. JStr ''{}'')\<rparr>"

text \<open>
  An upstream for a whole run: the listing holds the given candidates, the level
  \<open>WLP (Base)\<close> of the price list is the given detail, and the base record of item 6 has an
  id that does not convert to a string; everything else is as above (the base record of
  item 9 cannot be fetched).
\<close>

definition run_upstream :: "jsval list \<Rightarrow> jsval \<Rightarrow> upstream" where
  "run_upstream candidates wlp tr r =
     (case r of
        Get AuthProbe \<Rightarrow> Response (JObj [])
      | Get (ItemList n off) \<Rightarrow>
          Response (demo_page candidates False (of_nat (length candidates)))
      | Get (ItemsModifiedAfter date) \<Rightarrow>
          Response (demo_page candidates False (of_nat (length candidates)))
      | Get (ItemDetail i) \<Rightarrow>
          if i = JStr ''6'' then Response (JObj [(''id'', JObj [(''toString'', num 1)])])
          else demo_upstream tr r
      | Get (Href u) \<Rightarrow> if u = JStr ''/p1'' then Response wlp else demo_upstream tr r
      | _ \<Rightarrow> demo_upstream tr r)"

text \<open>The level \<open>WLP (Base)\<close> with its price as a string.\<close>

definition string_wlp :: jsval where
  "string_wlp = JObj [(''priceLevelName'', JStr ''WLP (Base)''), (''price'', JStr ''100'')]"

text \<open>What the statements show of a run: the report, the counter of processed records, the
  error list and the keys of the store.\<close>

definition outcome_of :: "report \<times> run_state \<Rightarrow> report \<times> nat \<times> (jsval \<times> failure) list \<times> jsval list" where
  "outcome_of res =
     (fst res, processedCount (snd res), errors (snd res),
      map (\<lambda>doc. get_prop doc ''internalId'') (db (snd res)))"

definition demo_doc :: "rat \<Rightarrow> string \<Rightarrow> jsval" where
  "demo_doc k name = JObj [(''internalId'', num k), (''itemName'', JStr name)]"

definition movement_upstream :: upstream where
  "movement_upstream tr r =
     (case r of
        Post (SuiteQL ids) \<Rightarrow>
          Response (JObj [(''items'',
            JArr [JObj [(''item_id'', JStr ''2''), (''moved_last_12_months'', JStr ''1''),
                        (''last_movement_date'', JStr ''15/03/2024'')]])])
      | _ \<Rightarrow> Failure (Some 404))"

definition demo_stale :: "rat \<Rightarrow> jsval" where
  "demo_stale k = JObj [(''internalId'', num k),
                        (''last_movement_date'', JDate (Local_Date 2020 0 1)),
                        (''moved_last_12_months'', JBool True)]"

text \<open>Three stored documents: two as the sync writes them, and one that carries movement
  fields from an earlier write.\<close>

definition demo_stored :: movement_state where
  "demo_stored = \<lparr>m_db = [demo_doc 1 ''a'', demo_doc 2 ''b'', demo_stale 3],
                   updatedCount = 0, errorCount = 0, m_errors = []\<rparr>"

text \<open>A schema that declares the two movement fields in addition.\<close>

definition schema_with_movement :: "string list" where
  "schema_with_movement = inventory_schema @ [''last_movement_date'', ''moved_last_12_months'']"

section \<open>Facts about property access\<close>

lemma inherited_function:
  "inherited p k = Some x \<Longrightarrow> (\<exists>q n. x = JFun q n) \<or> (\<exists>q. x = JProto q)"
  by (cases p) (auto simp: inherited_def object_method_def split: if_splits)

lemma get_prop_own: "map_of fs k = Some x \<Longrightarrow> get_prop (JObj fs) k = x"
  by (simp add: get_prop_def)

text \<open>The names of the payloads that the code reads are not names of a prototype.\<close>

lemma plain_names [simp]:
  "inherited p ''id'' = None" "inherited p ''items'' = None" "inherited p ''links'' = None"
  "inherited p ''href'' = None" "inherited p ''price'' = None" "inherited p ''currency'' = None"
  "inherited p ''locations'' = None" "inherited p ''isInactive'' = None"
  "inherited p ''priceLevelName'' = None" "inherited p ''priceData'' = None"
  "inherited p ''locationsData'' = None" "inherited p ''totalQuantity'' = None"
  "inherited p ''internalId'' = None" "inherited p ''itemId'' = None"
  "inherited p ''itemName'' = None" "inherited p ''hasMore'' = None"
  "inherited p ''totalResults'' = None" "inherited p ''refName'' = None"
  "inherited p ''pricing'' = None" "inherited p ''tradePrice'' = None"
  "inherited p ''retailPrice'' = None" "inherited p ''averageCost'' = None"
  "inherited p ''totalValue'' = None" "inherited p ''item_id'' = None"
  "inherited p ''last_movement_date'' = None" "inherited p ''moved_last_12_months'' = None"
  by (cases p; simp add: inherited_def object_method_def object_methods_def array_methods_def
        date_methods_def)+

lemma get_prop_obj [simp]:
  "get_prop (JObj fs) k =
     (case map_of fs k of
        Some x \<Rightarrow> x
      | None \<Rightarrow> (case inherited Object_prototype k of Some x \<Rightarrow> x | None \<Rightarrow> JUndefined))"
  by (simp add: get_prop_def split: option.splits)

lemma has_prop_obj [simp]:
  "has_prop (JObj fs) k = (map_of fs k \<noteq> None \<or> inherited Object_prototype k \<noteq> None)"
  by (simp add: has_prop_def)

lemma get_prop_arr [simp]:
  "get_prop (JArr xs) k =
     (case own_prop (JArr xs) k of
        Some x \<Rightarrow> x
      | None \<Rightarrow> (case inherited Array_prototype k of Some x \<Rightarrow> x | None \<Rightarrow> JUndefined))"
  by (simp add: get_prop_def split: option.splits)

lemma get_prop_primitive [simp]:
  "get_prop JUndefined k = JUndefined" "get_prop JNull k = JUndefined"
  "get_prop (JBool b) k = JUndefined" "get_prop (JNum n) k = JUndefined"
  by (simp_all add: get_prop_def)

section \<open>Rate-limiter retry bound\<close>

lemma netsuiteRequest_response:
  "up tr config = Response d \<Longrightarrow>
   netsuiteRequest up tr config retries = (Inr d, tr @ [Request config])"
  by (subst netsuiteRequest.simps) simp

lemma netsuiteRequest_other_failure:
  "up tr config = Failure st \<Longrightarrow> st \<noteq> Some 429 \<Longrightarrow>
   netsuiteRequest up tr config retries = (Inl (HttpError st), tr @ [Request config])"
  by (subst netsuiteRequest.simps) simp

lemma netsuiteRequest_429_step:
  "up tr config = Failure (Some 429) \<Longrightarrow> retries > 0 \<Longrightarrow>
   netsuiteRequest up tr config retries =
   netsuiteRequest up (tr @ [Request config, Wait ((4 - retries) * 5000)]) config (retries - 1)"
  by (subst netsuiteRequest.simps) simp

lemma netsuiteRequest_429_exhausted:
  "up tr config = Failure (Some 429) \<Longrightarrow>
   netsuiteRequest up tr config 0 = (Inl (HttpError (Some 429)), tr @ [Request config])"
  by (subst netsuiteRequest.simps) simp

text \<open>
  C2. When every attempt of a request fails with status 429, \<open>netsuiteRequest\<close> (with its
  default of 3 retries) makes exactly four attempts, waits 5000, 10000 and 15000 ms before
  the first, second and third retry, and then throws the error. A failure with any other
  status (or with no response) is thrown after the single attempt, whatever the number of
  retries left.
\<close>

theorem netsuiteRequest_retry_bound:
  "((\<forall>tr. up tr config = Failure (Some 429)) \<longrightarrow>
      netsuiteRequest up tr0 config 3 =
        (Inl (HttpError (Some 429)),
         tr0 @ [Request config, Wait 5000, Request config, Wait 10000,
                Request config, Wait 15000, Request config]))
   \<and> (\<forall>st retries. up tr0 config = Failure st \<and> st \<noteq> Some 429 \<longrightarrow>
        netsuiteRequest up tr0 config retries = (Inl (HttpError st), tr0 @ [Request config]))"
proof (intro conjI impI allI)
  assume always: "\<forall>tr. up tr config = Failure (Some 429)"
  have "netsuiteRequest up tr0 config 3 =
        netsuiteRequest up (tr0 @ [Request config, Wait 5000]) config 2"
    using netsuiteRequest_429_step [of up tr0 config 3] always by simp
  also have "\<dots> = netsuiteRequest up
        (tr0 @ [Request config, Wait 5000, Request config, Wait 10000]) config 1"
    using netsuiteRequest_429_step [of up "tr0 @ [Request config, Wait 5000]" config 2] always
    by simp
  also have "\<dots> = netsuiteRequest up
        (tr0 @ [Request config, Wait 5000, Request config, Wait 10000,
                Request config, Wait 15000]) config 0"
    using netsuiteRequest_429_step
      [of up "tr0 @ [Request config, Wait 5000, Request config, Wait 10000]" config 1] always
    by simp
  also have "\<dots> = (Inl (HttpError (Some 429)),
        tr0 @ [Request config, Wait 5000, Request config, Wait 10000,
               Request config, Wait 15000, Request config])"
    using netsuiteRequest_429_exhausted
      [of up "tr0 @ [Request config, Wait 5000, Request config, Wait 10000,
                     Request config, Wait 15000]" config] always
    by simp
  finally show "netsuiteRequest up tr0 config 3 =
        (Inl (HttpError (Some 429)),
         tr0 @ [Request config, Wait 5000, Request config, Wait 10000,
                Request config, Wait 15000, Request config])" .
next
  fix st retries
  assume "up tr0 config = Failure st \<and> st \<noteq> Some 429"
  then show "netsuiteRequest up tr0 config retries = (Inl (HttpError st), tr0 @ [Request config])"
    using netsuiteRequest_other_failure by blast
qed

theorem netsuiteRequest_retry_bound_witness:
  "netsuiteRequest (\<lambda>tr r. Failure (Some 429)) [] (Get AuthProbe) 3 =
     (Inl (HttpError (Some 429)),
      [Request (Get AuthProbe), Wait 5000, Request (Get AuthProbe), Wait 10000,
       Request (Get AuthProbe), Wait 15000, Request (Get AuthProbe)])
   \<and> netsuiteRequest (\<lambda>tr r. Failure (Some 500)) [] (Get AuthProbe) 3 =
     (Inl (HttpError (Some 500)), [Request (Get AuthProbe)])
   \<and> netsuiteRequest (\<lambda>tr r. Failure None) [] (Get AuthProbe) 3 =
     (Inl (HttpError None), [Request (Get AuthProbe)])"
  using netsuiteRequest_retry_bound [of "\<lambda>tr r. Failure (Some 429)" "Get AuthProbe" "[]"]
    netsuiteRequest_retry_bound [of "\<lambda>tr r. Failure (Some 500)" "Get AuthProbe" "[]"]
    netsuiteRequest_retry_bound [of "\<lambda>tr r. Failure None" "Get AuthProbe" "[]"]
  by simp

section \<open>Numeric coercion\<close>

lemma parseFloat_abc: "parseFloat ''abc'' = NaN"
  by code_simp

lemma parseFloat_12_5: "parseFloat ''12.5'' = Fin (25 / 2)"
  by code_simp

text \<open>
  C5, as the code has it. On an object, \<open>extractNumericValue\<close> never throws and yields a
  number. The number is \<open>NaN\<close> only when the field itself holds the number \<open>NaN\<close>, and it is
  non-finite only when the field holds that non-finite number or a string that
  \<open>parseFloat\<close> reads as it. An absent field, \<open>null\<close>, \<open>undefined\<close> and a string without a
  numeric prefix yield 0, and so does a value that is neither a number nor a string; any
  other string yields what \<open>parseFloat\<close> reads; a number is returned as it is. A \<open>null\<close> or
  \<open>undefined\<close> record yields 0 as well.
\<close>

theorem extractNumericValue_number:
  "(\<exists>n. extractNumericValue (JObj fs) f = Inr n
        \<and> (n = NaN \<longrightarrow> map_of fs f = Some (JNum NaN))
        \<and> (\<not> is_finite n \<longrightarrow> map_of fs f = Some (JNum n)
              \<or> (\<exists>s. map_of fs f = Some (JStr s) \<and> parseFloat s = n)))
   \<and> (map_of fs f = None \<or> map_of fs f = Some JNull \<or> map_of fs f = Some JUndefined
        \<longrightarrow> extractNumericValue (JObj fs) f = Inr (Fin 0))
   \<and> (\<forall>s. map_of fs f = Some (JStr s) \<and> parseFloat s = NaN
        \<longrightarrow> extractNumericValue (JObj fs) f = Inr (Fin 0))
   \<and> (\<forall>s. map_of fs f = Some (JStr s) \<and> parseFloat s \<noteq> NaN
        \<longrightarrow> extractNumericValue (JObj fs) f = Inr (parseFloat s))
   \<and> (\<forall>n. map_of fs f = Some (JNum n) \<longrightarrow> extractNumericValue (JObj fs) f = Inr n)
   \<and> (\<forall>v. map_of fs f = Some v \<and> (\<forall>n. v \<noteq> JNum n) \<and> (\<forall>s. v \<noteq> JStr s)
        \<longrightarrow> extractNumericValue (JObj fs) f = Inr (Fin 0))
   \<and> extractNumericValue JNull f = Inr (Fin 0)
   \<and> extractNumericValue JUndefined f = Inr (Fin 0)"
  by (cases "map_of fs f"; cases "inherited Object_prototype f")
     (auto simp: extractNumericValue_def has_prop_obj get_prop_obj Let_def
           dest!: inherited_function split: jsval.splits)

theorem extractNumericValue_number_witness:
  "extractNumericValue (JObj [(''averageCost'', JStr ''12.5'')]) ''averageCost'' = Inr (Fin (25 / 2))
   \<and> extractNumericValue (JObj [(''averageCost'', num 7)]) ''averageCost'' = Inr (Fin 7)
   \<and> extractNumericValue (JObj [(''averageCost'', JStr ''abc'')]) ''averageCost'' = Inr (Fin 0)
   \<and> extractNumericValue (JObj [(''averageCost'', JNull)]) ''averageCost'' = Inr (Fin 0)
   \<and> extractNumericValue (JObj []) ''averageCost'' = Inr (Fin 0)
   \<and> extractNumericValue (JObj [(''averageCost'', JNum NaN)]) ''averageCost'' = Inr NaN"
  using extractNumericValue_number [of "[(''averageCost'', JStr ''12.5'')]" "''averageCost''"]
    extractNumericValue_number [of "[(''averageCost'', num 7)]" "''averageCost''"]
    extractNumericValue_number [of "[(''averageCost'', JStr ''abc'')]" "''averageCost''"]
    extractNumericValue_number [of "[(''averageCost'', JNull)]" "''averageCost''"]
    extractNumericValue_number [of "[]" "''averageCost''"]
    extractNumericValue_number [of "[(''averageCost'', JNum NaN)]" "''averageCost''"]
    parseFloat_abc parseFloat_12_5
  by simp

text \<open>
  The claim as the specification words it, a finite number for every input, fails: the
  string \<open>"Infinity"\<close> is read by \<open>parseFloat\<close> as the number Infinity, which passes the
  \<open>isNaN\<close> test.
\<close>

theorem extractNumericValue_infinity_counterexample:
  "extractNumericValue (JObj [(''averageCost'', JStr ''Infinity'')]) ''averageCost'' = Inr PInf
   \<and> \<not> is_finite PInf"
  by code_simp

section \<open>Falsy values in field extraction\<close>








section \<open>Dates of the movement feed\<close>

lemma parseNetSuiteDate_total:
  "parseNetSuiteDate v = Inr JNull \<or> (\<exists>d. parseNetSuiteDate v = Inr (JDate d))
   \<or> parseNetSuiteDate v = Inl TypeError"
  by (auto simp: parseNetSuiteDate_def Let_def split: jsval.splits)

lemma parseNetSuiteDate_not_three_parts:
  "length (split_on CHR ''/'' s) \<noteq> 3 \<Longrightarrow> parseNetSuiteDate (JStr s) = Inr JNull"
  by (simp add: parseNetSuiteDate_def Let_def)

text \<open>
  C6. \<open>parseNetSuiteDate\<close> maps \<open>"15/03/2024"\<close> to the date built from year 2024, month
  index 2 (March) and day 15, and the empty string and an absent value to \<open>null\<close>. A
  malformed string of three parts is not mapped to \<open>null\<close>: \<open>parseInt\<close> yields \<open>NaN\<close>
  instead of throwing, the \<open>catch\<close> block is never entered, and the result for \<open>"a/b/c"\<close>
  is an Invalid Date. For a value that is no string the \<open>catch\<close> block is entered, and it
  throws itself when its log line cannot convert the value, as for \<open>{"toString": 1}\<close>.
\<close>

theorem parseNetSuiteDate_malformed_gives_invalid_date:
  "parseNetSuiteDate (JStr ''15/03/2024'') = Inr (JDate (Local_Date 2024 2 15))
   \<and> parseNetSuiteDate (JStr []) = Inr JNull
   \<and> parseNetSuiteDate JUndefined = Inr JNull
   \<and> parseNetSuiteDate (JStr ''a/b/c'') = Inr (JDate Invalid_Date)
   \<and> parseNetSuiteDate (JObj [(''toString'', num 1)]) = Inl TypeError"
  by code_simp

section \<open>Price selection\<close>

lemma array_index_0: "array_index ''0'' = Some 0"
  by code_simp

lemma link_href_price_item: "link_href (price_item u) = Inr u"
  by (simp add: link_href_def first_href_def price_item_def read_prop_def get_prop_def
        array_index_0)

lemma price_loop_scan:
  "list_all2 (fetched up itemId) items ds \<Longrightarrow>
   fst (price_loop up tr itemId items st) = Inr (scan_levels ds st)"
proof (induction items ds arbitrary: tr st rule: list_all2_induct)
  case Nil
  then show ?case by simp
next
  case (Cons item items d ds)
  from Cons.hyps(1) obtain u where u: "link_href item = Inr u"
    and fd: "\<forall>tr. fst (fetchPriceDetail up tr itemId u) = d"
    unfolding fetched_def by blast
  obtain d' tr' where f: "fetchPriceDetail up tr itemId u = (d', tr')"
    by (cases "fetchPriceDetail up tr itemId u")
  with fd have d': "d' = d"
    by (metis fst_conv)
  show ?case
    using Cons.IH [of tr'] f d' u by simp
qed

lemma apply_detail_trade:
  "is_level ''WLP (Base)'' d \<Longrightarrow>
   apply_detail st d = st\<lparr>tradePrice := level_price d, hasTradePrice := True\<rparr>"
  by (simp add: apply_detail_def is_level_def level_price_def)

lemma apply_detail_retail:
  "is_level ''LPCP (HKD)'' d \<Longrightarrow>
   apply_detail st d = st\<lparr>retailPrice := level_price d, price := level_price d,
                            currency := JStr ''HKD'', hasRetailPrice := True\<rparr>"
  by (simp add: apply_detail_def is_level_def level_price_def)

lemma apply_detail_other:
  "truthy d \<Longrightarrow> \<not> is_level ''WLP (Base)'' d \<Longrightarrow> \<not> is_level ''LPCP (HKD)'' d \<Longrightarrow>
   apply_detail st d = st"
  by (simp add: apply_detail_def is_level_def)

lemma find_None_set: "(\<forall>d\<in>set ds. \<not> P d) \<Longrightarrow> find P ds = None"
  by (simp add: find_None_iff)

lemma closed_form_none:
  "\<forall>d\<in>set ds. \<not> is_level ''WLP (Base)'' d \<Longrightarrow> \<forall>d\<in>set ds. \<not> is_level ''LPCP (HKD)'' d \<Longrightarrow>
   closed_form ds st = st"
  by (simp add: closed_form_def find_None_set)

lemma scan_levels_closed_form:
  "once ''WLP (Base)'' ds \<Longrightarrow> once ''LPCP (HKD)'' ds \<Longrightarrow>
   (hasTradePrice st \<longrightarrow> (\<forall>d\<in>set ds. \<not> is_level ''WLP (Base)'' d)) \<Longrightarrow>
   (hasRetailPrice st \<longrightarrow> (\<forall>d\<in>set ds. \<not> is_level ''LPCP (HKD)'' d)) \<Longrightarrow>
   scan_levels ds st = closed_form ds st"
proof (induction ds arbitrary: st)
  case Nil
  then show ?case by (simp add: closed_form_def)
next
  case (Cons d ds)
  have o1: "once ''WLP (Base)'' ds" and o2: "once ''LPCP (HKD)'' ds"
    using Cons.prems(1,2) by (auto simp: once_def split: if_splits)
  have u1: "is_level ''WLP (Base)'' d \<Longrightarrow> \<forall>x\<in>set ds. \<not> is_level ''WLP (Base)'' x"
    using Cons.prems(1) by (auto simp: once_def filter_empty_conv)
  have u2: "is_level ''LPCP (HKD)'' d \<Longrightarrow> \<forall>x\<in>set ds. \<not> is_level ''LPCP (HKD)'' x"
    using Cons.prems(2) by (auto simp: once_def filter_empty_conv)
  have excl: "\<not> (is_level ''WLP (Base)'' d \<and> is_level ''LPCP (HKD)'' d)"
    by (auto simp: is_level_def)
  show ?case
  proof (cases "hasTradePrice st \<and> hasRetailPrice st")
    case True
    then show ?thesis
      using Cons.prems(3,4) closed_form_none [of "d # ds" st] by simp
  next
    case both: False
    show ?thesis
    proof (cases "truthy d")
      case False
      then have nl: "\<not> is_level ''WLP (Base)'' d" "\<not> is_level ''LPCP (HKD)'' d"
        by (simp_all add: is_level_def)
      have "scan_levels (d # ds) st = scan_levels ds st"
        using False by (simp add: both)
      also have "\<dots> = closed_form ds st"
        using Cons.IH [OF o1 o2] Cons.prems(3,4) by simp
      also have "\<dots> = closed_form (d # ds) st"
        using nl by (simp add: closed_form_def)
      finally show ?thesis .
    next
      case True
      consider (w) "is_level ''WLP (Base)'' d" | (r) "is_level ''LPCP (HKD)'' d"
        | (n) "\<not> is_level ''WLP (Base)'' d" "\<not> is_level ''LPCP (HKD)'' d"
        by blast
      then show ?thesis
      proof cases
        case w
        then have nr: "\<not> is_level ''LPCP (HKD)'' d" using excl by blast
        have "scan_levels (d # ds) st
              = scan_levels ds (st\<lparr>tradePrice := level_price d, hasTradePrice := True\<rparr>)"
          using True by (simp add: both apply_detail_trade [OF w])
        also have "\<dots> = closed_form ds (st\<lparr>tradePrice := level_price d, hasTradePrice := True\<rparr>)"
          using Cons.IH [OF o1 o2] u1 [OF w] Cons.prems(4) by simp
        also have "\<dots> = closed_form (d # ds) st"
          using w nr u1 [OF w] by (simp add: closed_form_def find_None_set split: option.splits)
        finally show ?thesis .
      next
        case r
        then have nw: "\<not> is_level ''WLP (Base)'' d" using excl by blast
        have "scan_levels (d # ds) st
              = scan_levels ds (st\<lparr>retailPrice := level_price d, price := level_price d,
                            currency := JStr ''HKD'', hasRetailPrice := True\<rparr>)"
          using True by (simp add: both apply_detail_retail [OF r])
        also have "\<dots> = closed_form ds (st\<lparr>retailPrice := level_price d, price := level_price d,
                            currency := JStr ''HKD'', hasRetailPrice := True\<rparr>)"
          using Cons.IH [OF o1 o2] u2 [OF r] Cons.prems(3) by simp
        also have "\<dots> = closed_form (d # ds) st"
          using r nw u2 [OF r] by (simp add: closed_form_def find_None_set split: option.splits)
        finally show ?thesis .
      next
        case n
        have "scan_levels (d # ds) st = scan_levels ds st"
          using True by (simp add: both apply_detail_other [OF True n])
        also have "\<dots> = closed_form ds st"
          using Cons.IH [OF o1 o2] Cons.prems(3,4) by simp
        also have "\<dots> = closed_form (d # ds) st"
          using n by (simp add: closed_form_def)
        finally show ?thesis .
      qed
    qed
  qed
qed


lemma find_unique:
  "length (filter P ds) \<le> 1 \<Longrightarrow> d \<in> set ds \<Longrightarrow> P d \<Longrightarrow> find P ds = Some d"
proof (induction ds)
  case Nil
  then show ?case by simp
next
  case (Cons x xs)
  show ?case
  proof (cases "P x")
    case True
    then have "filter P xs = []" using Cons.prems(1) by simp
    then have "\<forall>y\<in>set xs. \<not> P y" by (simp add: filter_empty_conv)
    then have "d = x" using Cons.prems(2,3) by auto
    then show ?thesis using True by simp
  next
    case False
    then show ?thesis using Cons by auto
  qed
qed

lemma level_price_cases: "truthy (level_price d) \<or> level_price d = num 0"
  by (simp add: level_price_def js_or_def)

lemma fetchPriceInformation_closed_form:
  assumes list: "up tr (Get (Href priceUrl)) = Response d0" "read_prop d0 ''items'' = Inr (JArr items)"
    and details: "list_all2 (fetched up itemId) items ds"
    and cur: "initial_currency itemCurrency = Inr cur"
    and once: "once ''WLP (Base)'' ds" "once ''LPCP (HKD)'' ds"
  shows "fst (fetchPriceInformation up tr itemId priceUrl itemCurrency)
         = final_price_data (closed_form ds (initial_state cur))"
proof -
  let ?tr1 = "tr @ [Request (Get (Href priceUrl))]"
  obtain x tr2 where loop: "price_loop up ?tr1 itemId items (initial_state cur) = (x, tr2)"
    by (cases "price_loop up ?tr1 itemId items (initial_state cur)")
  have "x = Inr (scan_levels ds (initial_state cur))"
    using price_loop_scan [OF details, of ?tr1 "initial_state cur"] loop by simp
  moreover have "scan_levels ds (initial_state cur) = closed_form ds (initial_state cur)"
    using scan_levels_closed_form [OF once, of "initial_state cur"] by (simp add: initial_state_def)
  ultimately have x: "x = Inr (closed_form ds (initial_state cur))" by simp
  show ?thesis
    using netsuiteRequest_response [of up tr "Get (Href priceUrl)" d0 3] list cur loop x
    by (simp add: fetchPriceInformation_def js_or_def initial_state_def)
qed

text \<open>
  C1, as the code has it. Let the price list of an item have the entries \<open>items\<close>, let
  \<open>ds\<close> be the details fetched for them (\<open>null\<close> for a fetch that failed), and let each of the
  names \<open>WLP (Base)\<close> and \<open>LPCP (HKD)\<close> occur at most once among them. Then the result
  of \<open>fetchPriceInformation\<close> depends on the set of levels only, not on their order:
  the level named \<open>WLP (Base)\<close> gives \<open>tradePrice\<close>; the level named \<open>LPCP (HKD)\<close> gives
  \<open>retailPrice\<close>, sets the currency to \<open>HKD\<close> and is the display price unless it is zero,
  in which case the display price is the trade price; without an \<open>LPCP (HKD)\<close> level the
  display price is the trade price and the currency is the one derived from the item's
  own currency (\<open>EUR\<close>, \<open>USD\<close>, else \<open>HKD\<close>); an empty list gives price 0 with that
  currency. A base record without a price reference gets price 0 and currency \<open>HKD\<close>
  with no request at all.
\<close>

theorem fetchPriceInformation_selection:
  assumes list: "up tr (Get (Href priceUrl)) = Response d0" "read_prop d0 ''items'' = Inr (JArr items)"
    and details: "list_all2 (fetched up itemId) items ds"
    and cur: "initial_currency itemCurrency = Inr cur"
    and once: "once ''WLP (Base)'' ds" "once ''LPCP (HKD)'' ds"
  shows "(\<exists>P C T R.
            fst (fetchPriceInformation up tr itemId priceUrl itemCurrency) = price_data P C T R
          \<and> (\<forall>d\<in>set ds. is_level ''WLP (Base)'' d \<longrightarrow> T = level_price d)
          \<and> ((\<forall>d\<in>set ds. \<not> is_level ''WLP (Base)'' d) \<longrightarrow> T = num 0)
          \<and> (\<forall>d\<in>set ds. is_level ''LPCP (HKD)'' d \<longrightarrow>
                R = level_price d \<and> C = JStr ''HKD'' \<and> P = (if truthy R then R else T))
          \<and> ((\<forall>d\<in>set ds. \<not> is_level ''LPCP (HKD)'' d) \<longrightarrow> R = num 0 \<and> C = cur \<and> P = T)
          \<and> (ds = [] \<longrightarrow> P = num 0 \<and> C = cur))
       \<and> (\<forall>d0 tr0. \<not> nullish d0 \<and> \<not> has_links (get_prop d0 ''price'') \<longrightarrow>
             price_part up tr0 itemId d0 = (Inr (price_data (num 0) (JStr ''HKD'') (num 0) (num 0)), tr0))"
proof (intro conjI allI impI)
  let ?st = "closed_form ds (initial_state cur)"
  let ?T = "tradePrice ?st" and ?R = "retailPrice ?st" and ?C = "currency ?st"
  let ?P = "if \<not> truthy (price ?st) \<and> truthy ?T then ?T else price ?st"
  have res: "fst (fetchPriceInformation up tr itemId priceUrl itemCurrency) = price_data ?P ?C ?T ?R"
    using fetchPriceInformation_closed_form [OF assms] by (simp add: final_price_data_def)
  have T1: "\<forall>d\<in>set ds. is_level ''WLP (Base)'' d \<longrightarrow> ?T = level_price d"
    using find_unique [of "is_level ''WLP (Base)''" ds] once(1)
    by (auto simp: closed_form_def once_def)
  have T0: "(\<forall>d\<in>set ds. \<not> is_level ''WLP (Base)'' d) \<longrightarrow> ?T = num 0"
    by (auto simp: closed_form_def initial_state_def find_None_set)
  have Tc: "truthy ?T \<or> ?T = num 0"
    using level_price_cases by (auto simp: closed_form_def initial_state_def split: option.splits)
  have R1: "\<forall>d\<in>set ds. is_level ''LPCP (HKD)'' d \<longrightarrow>
              ?R = level_price d \<and> price ?st = level_price d \<and> ?C = JStr ''HKD''"
    using find_unique [of "is_level ''LPCP (HKD)''" ds] once(2)
    by (auto simp: closed_form_def once_def)
  have R0: "(\<forall>d\<in>set ds. \<not> is_level ''LPCP (HKD)'' d) \<longrightarrow>
              ?R = num 0 \<and> price ?st = num 0 \<and> ?C = cur"
    by (auto simp: closed_form_def initial_state_def find_None_set)
  have P1: "\<forall>d\<in>set ds. is_level ''LPCP (HKD)'' d \<longrightarrow> ?P = (if truthy ?R then ?R else ?T)"
  proof (intro ballI impI)
    fix d assume "d \<in> set ds" "is_level ''LPCP (HKD)'' d"
    then have eq: "price ?st = ?R" and lp: "?R = level_price d" using R1 by auto
    show "?P = (if truthy ?R then ?R else ?T)"
      using Tc level_price_cases [of d] unfolding eq lp [symmetric] by auto
  qed
  have P0: "(\<forall>d\<in>set ds. \<not> is_level ''LPCP (HKD)'' d) \<longrightarrow> ?P = ?T"
    using R0 Tc by auto
  show "\<exists>P C T R.
            fst (fetchPriceInformation up tr itemId priceUrl itemCurrency) = price_data P C T R
          \<and> (\<forall>d\<in>set ds. is_level ''WLP (Base)'' d \<longrightarrow> T = level_price d)
          \<and> ((\<forall>d\<in>set ds. \<not> is_level ''WLP (Base)'' d) \<longrightarrow> T = num 0)
          \<and> (\<forall>d\<in>set ds. is_level ''LPCP (HKD)'' d \<longrightarrow>
                R = level_price d \<and> C = JStr ''HKD'' \<and> P = (if truthy R then R else T))
          \<and> ((\<forall>d\<in>set ds. \<not> is_level ''LPCP (HKD)'' d) \<longrightarrow> R = num 0 \<and> C = cur \<and> P = T)
          \<and> (ds = [] \<longrightarrow> P = num 0 \<and> C = cur)"
  proof (intro exI conjI)
    show "fst (fetchPriceInformation up tr itemId priceUrl itemCurrency) = price_data ?P ?C ?T ?R"
      by (rule res)
    show "\<forall>d\<in>set ds. is_level ''WLP (Base)'' d \<longrightarrow> ?T = level_price d" by (rule T1)
    show "(\<forall>d\<in>set ds. \<not> is_level ''WLP (Base)'' d) \<longrightarrow> ?T = num 0" by (rule T0)
    show "\<forall>d\<in>set ds. is_level ''LPCP (HKD)'' d \<longrightarrow>
            ?R = level_price d \<and> ?C = JStr ''HKD'' \<and> ?P = (if truthy ?R then ?R else ?T)"
      using R1 P1 by blast
    show "(\<forall>d\<in>set ds. \<not> is_level ''LPCP (HKD)'' d) \<longrightarrow> ?R = num 0 \<and> ?C = cur \<and> ?P = ?T"
      using R0 P0 by blast
    show "ds = [] \<longrightarrow> ?P = num 0 \<and> ?C = cur"
      by (simp add: closed_form_def initial_state_def)
  qed
next
  fix d0 tr0
  assume "\<not> nullish d0 \<and> \<not> has_links (get_prop d0 ''price'')"
  then show "price_part up tr0 itemId d0 = (Inr (price_data (num 0) (JStr ''HKD'') (num 0) (num 0)), tr0)"
    by (simp add: price_part_def read_prop_def default_price_data_def)
qed


lemma demo_details:
  "list_all2 (fetched demo_upstream (JStr ''8''))
     [price_item (JStr ''/p1''), price_item (JStr ''/p2'')] [demo_wlp, demo_lpcp]"
  by (simp add: fetched_def link_href_price_item fetchPriceDetail_def netsuiteRequest_response
        demo_upstream_def)

lemma demo_levels:
  "is_level ''WLP (Base)'' demo_wlp" "\<not> is_level ''WLP (Base)'' demo_lpcp"
  "is_level ''LPCP (HKD)'' demo_lpcp" "\<not> is_level ''LPCP (HKD)'' demo_wlp"
  "level_price demo_wlp = num 100" "level_price demo_lpcp = num 120"
  by (simp_all add: is_level_def level_price_def js_or_def demo_wlp_def demo_lpcp_def
        get_prop_def)

theorem fetchPriceInformation_selection_witness:
  "fst (fetchPriceInformation demo_upstream [] (JStr ''8'') (JStr ''/price'') JUndefined)
     = price_data (num 120) (JStr ''HKD'') (num 100) (num 120)
   \<and> price_part demo_upstream [] (JStr ''8'') (JObj [(''id'', JStr ''8'')])
     = (Inr (price_data (num 0) (JStr ''HKD'') (num 0) (num 0)), [])"
proof -
  let ?d = "JObj [(''items'', JArr [price_item (JStr ''/p1''), price_item (JStr ''/p2'')])]"
  have list: "demo_upstream [] (Get (Href (JStr ''/price''))) = Response ?d"
    "read_prop ?d ''items'' = Inr (JArr [price_item (JStr ''/p1''), price_item (JStr ''/p2'')])"
    by (simp_all add: demo_upstream_def read_prop_def)
  have cur: "initial_currency JUndefined = Inr (JStr ''HKD'')"
    by (simp add: initial_currency_def)
  have o: "once ''WLP (Base)'' [demo_wlp, demo_lpcp]" "once ''LPCP (HKD)'' [demo_wlp, demo_lpcp]"
    by (simp_all add: once_def demo_levels)
  have nl: "\<not> nullish (JObj [(''id'', JStr ''8'')]) \<and>
            \<not> has_links (get_prop (JObj [(''id'', JStr ''8'')]) ''price'')"
    by (simp add: has_links_def opt_prop_def)
  from fetchPriceInformation_selection [OF list demo_details cur o]
  show ?thesis
    using nl by (auto simp: demo_levels)
qed

text \<open>
  The claim as the specification words it fails for an empty price list of an item priced
  in euros: the currency of the result is \<open>EUR\<close>, not \<open>HKD\<close>.
\<close>

theorem fetchPriceInformation_empty_list_counterexample:
  "fst (fetchPriceInformation demo_upstream [] (JStr ''8'') (JStr ''/empty'') (JStr ''Euro (EUR)''))
     = price_data (num 0) (JStr ''EUR'') (num 0) (num 0)
   \<and> JStr ''EUR'' \<noteq> JStr ''HKD''"
  by code_simp

section \<open>Inactive records\<close>

text \<open>The fetcher of the full-catalogue script returns early for an inactive record:
  its only request is the one for the base record.\<close>

lemma map_of_obj_put:
  "map_of (obj_put k v fs) k' = (if k' = k then Some v else map_of fs k')"
  by (induction fs) auto

lemma fetchInventoryItemDetail_inactive:
  assumes "up tr (Get (ItemDetail itemId)) = Response d"
    and "opt_prop d ''isInactive'' = JBool True"
  shows "\<exists>r. fetchInventoryItemDetail h up tr itemId = (r, tr @ [Request (Get (ItemDetail itemId))])
     \<and> get_prop r ''priceData'' = price_data (num 0) (JStr ''HKD'') (num 0) (num 0)
     \<and> get_prop r ''locationsData'' = JArr []
     \<and> get_prop r ''totalQuantity'' = num 0
     \<and> get_prop r ''isInactive'' = JBool True"
  using assms netsuiteRequest_response [of up tr "Get (ItemDetail itemId)" d 3]
  by (simp add: fetchInventoryItemDetail_def spread_with_def map_of_obj_put default_price_data_def)

text \<open>
  C3. The fetcher of \<open>scripts/syncInventory.js\<close> does not test the inactive flag: for the
  inactive item 7, whose base record has a price reference, it requests the price list and
  both price details and returns the fetched price 120, where the fetcher of the
  full-catalogue script makes the single request for the base record and returns price 0.
\<close>

theorem fetchInventoryItemDetail_scripts_inactive_fetches_price:
  "fetchInventoryItemDetail_scripts demo_host demo_upstream [] (JStr ''7'')
     = (JObj [(''id'', JStr ''7''), (''isInactive'', JBool True),
              (''price'', JObj [(''links'', JArr [JObj [(''href'', JStr ''/price'')]])]),
              (''currency'', JObj [(''refName'', JStr ''Euro (EUR)'')]),
              (''priceData'', price_data (num 120) (JStr ''HKD'') (num 100) (num 120)),
              (''locationsData'', JArr []), (''totalQuantity'', num 0)],
        [Request (Get (ItemDetail (JStr ''7''))), Request (Get (Href (JStr ''/price''))),
         Request (Get (Href (JStr ''/p1''))), Request (Get (Href (JStr ''/p2'')))])
   \<and> fetchInventoryItemDetail demo_host demo_upstream [] (JStr ''7'')
     = (JObj [(''id'', JStr ''7''), (''isInactive'', JBool True),
              (''price'', JObj [(''links'', JArr [JObj [(''href'', JStr ''/price'')]])]),
              (''currency'', JObj [(''refName'', JStr ''Euro (EUR)'')]),
              (''priceData'', price_data (num 0) (JStr ''HKD'') (num 0) (num 0)),
              (''locationsData'', JArr []), (''totalQuantity'', num 0)],
        [Request (Get (ItemDetail (JStr ''7'')))])"
  by code_simp

section \<open>Pagination\<close>

lemma requests_append [simp]: "requests (a @ b) = requests a + requests b"
  by (simp add: requests_def)

lemma requests_simps [simp]:
  "requests [] = 0" "requests (Request r # tr) = Suc (requests tr)" "requests (Wait n # tr) = requests tr"
  by (simp_all add: requests_def)

lemma js_plus_nums: "js_plus h (num a) (num b) = Inr (num (a + b))"
  by (simp add: js_plus_def)

lemma js_gt_nums: "js_gt h (num a) (num b) = Inr (b < a)"
  by (simp add: js_gt_def)

lemma sweep_loop_done:
  "\<not> hasMore st \<Longrightarrow> sweep_loop h up limit opts tr st = Some (Inr st, tr)"
  by (subst sweep_loop.simps) simp

lemma after_page_shaped:
  assumes "page_items d = JArr xs" "convertible (page_total d)" "offset st = num off"
    and "totalResults st = JNull \<or> convertible (totalResults st)"
  shows "after_page h d st =
         (False, st\<lparr>allItems := allItems st @ xs,
                   totalResults := (if totalResults st = JNull \<and> page_total d \<noteq> JUndefined
                                    then page_total d else totalResults st),
                   hasMore := page_hasMore d,
                   offset := num (off + of_nat (length xs))\<rparr>)"
  using assms by (auto simp: after_page_def Let_def js_concat_def js_plus_nums)

lemma sweep_loop_page:
  assumes "hasMore st" "maxItems opts = None" "convertible (offset st)"
    and "up tr (Get (ItemList limit (offset st))) = Response d"
    and "after_page h d (st\<lparr>batchNumber := Suc (batchNumber st)\<rparr>) = (False, st1)"
  shows "sweep_loop h up limit opts tr st =
         sweep_loop h up limit opts
           (if hasMore st1 then tr @ [Request (Get (ItemList limit (offset st))), Wait (int (batchDelay opts))]
            else tr @ [Request (Get (ItemList limit (offset st)))])
           st1"
  using assms netsuiteRequest_response [of up tr "Get (ItemList limit (offset st))" d 3]
  by (subst sweep_loop.simps) (simp add: at_limit_def itemsToFetch_def)

lemma sweep_loop_error:
  assumes "hasMore st" "\<not> at_limit (maxItems opts) (allItems st)" "convertible (offset st)"
    and "netsuiteRequest up tr (Get (ItemList (itemsToFetch limit opts st) (offset st))) 3 = (Inl e, tr')"
    and "after_error h limit (st\<lparr>batchNumber := Suc (batchNumber st)\<rparr>) = Inr st'"
  shows "sweep_loop h up limit opts tr st = sweep_loop h up limit opts tr' st'"
  using assms by (subst sweep_loop.simps) simp

lemma concat_take_Suc:
  "i < length xss \<Longrightarrow> concat (take (Suc i) xss) = concat (take i xss) @ xss ! i"
  by (simp add: take_Suc_conv_app_nth)

lemma sweep_pages:
  assumes shape: "\<forall>i<length ds. page_items (ds ! i) = JArr (xss ! i)
                    \<and> page_hasMore (ds ! i) = (Suc i < length ds)
                    \<and> convertible (page_total (ds ! i))"
    and len: "length xss = length ds"
    and ups: "\<forall>i<length ds. \<forall>tr. requests tr = i \<longrightarrow>
                up tr (Get (ItemList limit (num (of_nat (length (concat (take i xss)))))))
                = Response (ds ! i)"
    and mx: "maxItems opts = None"
  shows "requests tr = i \<Longrightarrow> i < length ds \<Longrightarrow> hasMore st \<Longrightarrow>
         allItems st = concat (take i xss) \<Longrightarrow>
         offset st = num (of_nat (length (concat (take i xss)))) \<Longrightarrow>
         totalResults st = JNull \<or> convertible (totalResults st) \<Longrightarrow>
         \<exists>tr' st'. sweep_loop h up limit opts tr st = Some (Inr st', tr')
            \<and> allItems st' = concat xss
            \<and> (totalResults st' = JNull \<or> convertible (totalResults st'))"
proof (induction "length ds - i" arbitrary: i tr st)
  case 0
  then show ?case by simp
next
  case (Suc n)
  let ?d = "ds ! i"
  let ?off = "num (of_nat (length (concat (take i xss))))"
  let ?req = "Get (ItemList limit ?off)"
  let ?st0 = "st\<lparr>batchNumber := Suc (batchNumber st)\<rparr>"
  let ?st1 = "?st0\<lparr>allItems := allItems ?st0 @ xss ! i,
                   totalResults := (if totalResults ?st0 = JNull \<and> page_total ?d \<noteq> JUndefined
                                    then page_total ?d else totalResults ?st0),
                   hasMore := page_hasMore ?d,
                   offset := num (of_nat (length (concat (take i xss))) + of_nat (length (xss ! i)))\<rparr>"
  let ?tr' = "if hasMore ?st1 then tr @ [Request ?req, Wait (int (batchDelay opts))]
              else tr @ [Request ?req]"
  have sh: "page_items ?d = JArr (xss ! i)" "page_hasMore ?d = (Suc i < length ds)"
    "convertible (page_total ?d)"
    using shape Suc.prems(2) by auto
  have resp: "up tr ?req = Response ?d"
    using ups Suc.prems(1,2) by blast
  have ap: "after_page h ?d ?st0 = (False, ?st1)"
    using after_page_shaped [where d = ?d and xs = "xss ! i" and st = ?st0 and h = h
        and off = "of_nat (length (concat (take i xss)))"] sh Suc.prems(5,6)
    by simp
  have step: "sweep_loop h up limit opts tr st = sweep_loop h up limit opts ?tr' ?st1"
    using sweep_loop_page [where st = st and opts = opts and up = up and tr = tr and limit = limit
        and d = ?d and h = h and ?st1.0 = ?st1] Suc.prems(3,5) mx resp ap
    by simp
  have il: "i < length xss" using Suc.prems(2) len by simp
  have items1: "allItems ?st1 = concat (take (Suc i) xss)"
    using Suc.prems(4) concat_take_Suc [OF il] by simp
  have off1: "offset ?st1 = num (of_nat (length (concat (take (Suc i) xss))))"
    using concat_take_Suc [OF il] by simp
  have tot1: "totalResults ?st1 = JNull \<or> convertible (totalResults ?st1)"
    using Suc.prems(6) sh(3) by auto
  show ?case
  proof (cases "Suc i < length ds")
    case True
    then have hm: "hasMore ?st1"
      using sh(2) by simp
    have rq: "requests ?tr' = Suc i"
      using Suc.prems(1) hm by simp
    have "n = length ds - Suc i" using Suc.hyps(2) by simp
    from Suc.hyps(1) [OF this rq True hm items1 off1 tot1] step
    show ?thesis by simp
  next
    case False
    then have nm: "\<not> hasMore ?st1"
      using sh(2) by simp
    have "take (Suc i) xss = xss" using False len by simp
    then have "allItems ?st1 = concat xss" using items1 by simp
    then show ?thesis
      using step sweep_loop_done [OF nm, of h up limit opts ?tr'] tot1 by auto
  qed
qed

text \<open>
  C7, as the code has it. Full sweep (no \<open>maxItems\<close>): let the upstream answer the listing
  request number \<open>i\<close>, when it asks for the offset that the pages before it add up to, with
  the payload \<open>ds ! i\<close>, whose items are the array \<open>xss ! i\<close> and whose total converts to a
  string; let all payloads but the last have \<open>hasMore = true\<close>. Then
  \<open>fetchAllInventoryItems\<close> returns, and its result is the concatenation of the items of all
  pages in page order. When the request of a batch fails, the loop continues with the
  items collected so far and the offset advanced by the page width \<open>limit\<close>, unless the
  advanced offset exceeds the threshold \<open>totalResults || 100000\<close>: the total of the first
  page when one was observed that is not 0, else 100000. In that case the loop ends
  with the items collected so far.
\<close>

theorem fetchAllInventoryItems_pagination:
  "(length xss = length ds \<and> ds \<noteq> [] \<and> maxItems opts = None
      \<and> (\<forall>i<length ds. page_items (ds ! i) = JArr (xss ! i)
                          \<and> page_hasMore (ds ! i) = (Suc i < length ds)
                          \<and> convertible (page_total (ds ! i)))
      \<and> (\<forall>i<length ds. \<forall>tr. requests tr = i \<longrightarrow>
            up tr (Get (ItemList (min (batchSize opts) 1000)
                          (num (of_nat (length (concat (take i xss)))))))
            = Response (ds ! i))
    \<longrightarrow> (\<exists>tr'. fetchAllInventoryItems h up [] opts = Some (concat xss, tr')))
   \<and> (hasMore st \<and> \<not> at_limit (maxItems opts) (allItems st) \<and> offset st = num off
       \<and> netsuiteRequest up tr (Get (ItemList (itemsToFetch limit opts st) (offset st))) 3
           = (Inl e, tr1)
    \<longrightarrow> (totalResults st = JNull \<longrightarrow>
            sweep_loop h up limit opts tr st
            = sweep_loop h up limit opts tr1
                (st\<lparr>batchNumber := Suc (batchNumber st), offset := num (off + of_nat limit),
                    hasMore := \<not> (100000 < off + of_nat limit)\<rparr>))
        \<and> (\<forall>t. totalResults st = num t \<longrightarrow>
            sweep_loop h up limit opts tr st
            = sweep_loop h up limit opts tr1
                (st\<lparr>batchNumber := Suc (batchNumber st), offset := num (off + of_nat limit),
                    hasMore := \<not> ((if t = 0 then 100000 else t) < off + of_nat limit)\<rparr>))
        \<and> (\<forall>t. totalResults st = num t \<and> t \<noteq> 0 \<and> t < off + of_nat limit \<longrightarrow>
            sweep_loop h up limit opts tr st
            = Some (Inr (st\<lparr>batchNumber := Suc (batchNumber st),
                            offset := num (off + of_nat limit), hasMore := False\<rparr>), tr1)))"
proof (intro conjI impI allI)
  let ?init = "\<lparr>allItems = [], hasMore = True, offset = num 0, totalResults = JNull,
                 batchNumber = 0\<rparr>"
  assume a: "length xss = length ds \<and> ds \<noteq> [] \<and> maxItems opts = None
      \<and> (\<forall>i<length ds. page_items (ds ! i) = JArr (xss ! i)
                          \<and> page_hasMore (ds ! i) = (Suc i < length ds)
                          \<and> convertible (page_total (ds ! i)))
      \<and> (\<forall>i<length ds. \<forall>tr. requests tr = i \<longrightarrow>
            up tr (Get (ItemList (min (batchSize opts) 1000)
                          (num (of_nat (length (concat (take i xss)))))))
            = Response (ds ! i))"
  have "\<exists>tr' st'. sweep_loop h up (min (batchSize opts) 1000) opts [] ?init = Some (Inr st', tr')
            \<and> allItems st' = concat xss
            \<and> (totalResults st' = JNull \<or> convertible (totalResults st'))"
    using a by (intro sweep_pages [where ds = ds and i = 0]) auto
  then show "\<exists>tr'. fetchAllInventoryItems h up [] opts = Some (concat xss, tr')"
    by (auto simp: fetchAllInventoryItems_def)
next
  assume b: "hasMore st \<and> \<not> at_limit (maxItems opts) (allItems st) \<and> offset st = num off
       \<and> netsuiteRequest up tr (Get (ItemList (itemsToFetch limit opts st) (offset st))) 3
           = (Inl e, tr1)"
  from b have hm: "hasMore st" and nl: "\<not> at_limit (maxItems opts) (allItems st)"
    and ofs: "offset st = num off"
    and rq: "netsuiteRequest up tr (Get (ItemList (itemsToFetch limit opts st) (offset st))) 3
             = (Inl e, tr1)"
    by blast+
  have cv: "convertible (offset st)"
    by (simp add: ofs)
  have step: "sweep_loop h up limit opts tr st = sweep_loop h up limit opts tr1 st'"
    if "after_error h limit (st\<lparr>batchNumber := Suc (batchNumber st)\<rparr>) = Inr st'" for st'
    by (rule sweep_loop_error [OF hm nl cv rq that])
  show "sweep_loop h up limit opts tr st
        = sweep_loop h up limit opts tr1
            (st\<lparr>batchNumber := Suc (batchNumber st), offset := num (off + of_nat limit),
                hasMore := \<not> (100000 < off + of_nat limit)\<rparr>)"
    if "totalResults st = JNull"
    using that ofs hm by (intro step) (simp add: after_error_def js_plus_nums js_gt_nums js_or_def)
  show "sweep_loop h up limit opts tr st
        = sweep_loop h up limit opts tr1
            (st\<lparr>batchNumber := Suc (batchNumber st), offset := num (off + of_nat limit),
                hasMore := \<not> ((if t = 0 then 100000 else t) < off + of_nat limit)\<rparr>)"
    if "totalResults st = num t" for t
    using that ofs hm by (intro step) (simp add: after_error_def js_plus_nums js_gt_nums js_or_def)
  show "sweep_loop h up limit opts tr st
        = Some (Inr (st\<lparr>batchNumber := Suc (batchNumber st),
                        offset := num (off + of_nat limit), hasMore := False\<rparr>), tr1)"
    if t: "totalResults st = num t \<and> t \<noteq> 0 \<and> t < off + of_nat limit" for t
  proof -
    let ?st' = "st\<lparr>batchNumber := Suc (batchNumber st), offset := num (off + of_nat limit),
                   hasMore := False\<rparr>"
    have "after_error h limit (st\<lparr>batchNumber := Suc (batchNumber st)\<rparr>) = Inr ?st'"
      using t ofs hm by (simp add: after_error_def js_plus_nums js_gt_nums js_or_def)
    from step [OF this] show ?thesis
      using sweep_loop_done [of ?st' h up limit opts tr1] by simp
  qed
qed

lemma demo_page_simps [simp]:
  "page_items (demo_page xs b n) = JArr xs" "page_hasMore (demo_page xs b n) = b"
  "page_total (demo_page xs b n) = num n"
  by (simp_all add: page_items_def page_hasMore_def page_total_def demo_page_def js_or_def)

theorem fetchAllInventoryItems_pagination_witness:
  "map_option fst
     (fetchAllInventoryItems demo_host
        (catalogue_upstream [demo_item ''1'', demo_item ''2'', demo_item ''3''])
        [] \<lparr>batchSize = 2, maxItems = None, batchDelay = 200\<rparr>)
     = Some [demo_item ''1'', demo_item ''2'', demo_item ''3'']
   \<and> map_option fst
     (fetchAllInventoryItems demo_host
        (paged_upstream [Response (demo_page [demo_item ''1'', demo_item ''2''] True 3),
                         Failure (Some 500)])
        [] default_options)
     = Some [demo_item ''1'', demo_item ''2'']"
proof
  let ?cat = "[demo_item ''1'', demo_item ''2'', demo_item ''3'']"
  let ?ds = "[listing_page ?cat 2 0, listing_page ?cat 2 2]"
  let ?xss = "[[demo_item ''1'', demo_item ''2''], [demo_item ''3'']]"
  let ?opts = "\<lparr>batchSize = 2, maxItems = None, batchDelay = 200\<rparr>"
  have h: "length ?xss = length ?ds \<and> ?ds \<noteq> [] \<and> maxItems ?opts = None
      \<and> (\<forall>i<length ?ds. page_items (?ds ! i) = JArr (?xss ! i)
                          \<and> page_hasMore (?ds ! i) = (Suc i < length ?ds)
                          \<and> convertible (page_total (?ds ! i)))
      \<and> (\<forall>i<length ?ds. \<forall>tr. requests tr = i \<longrightarrow>
            catalogue_upstream ?cat tr (Get (ItemList (min (batchSize ?opts) 1000)
                          (num (of_nat (length (concat (take i ?xss)))))))
            = Response (?ds ! i))"
    by (auto simp: less_Suc_eq listing_page_def catalogue_upstream_def)
  from fetchAllInventoryItems_pagination [where ds = ?ds and xss = ?xss and opts = ?opts
      and up = "catalogue_upstream ?cat" and h = demo_host] h
  obtain tr' where "fetchAllInventoryItems demo_host (catalogue_upstream ?cat) [] ?opts
      = Some (concat ?xss, tr')"
    by blast
  then show "map_option fst (fetchAllInventoryItems demo_host (catalogue_upstream ?cat) [] ?opts)
     = Some [demo_item ''1'', demo_item ''2'', demo_item ''3'']"
    by simp
next
  let ?d = "demo_page [demo_item ''1'', demo_item ''2''] True 3"
  let ?up = "paged_upstream [Response ?d, Failure (Some 500)]"
  let ?init = "\<lparr>allItems = [], hasMore = True, offset = num 0, totalResults = JNull,
                 batchNumber = 0\<rparr>"
  let ?st = "\<lparr>allItems = [demo_item ''1'', demo_item ''2''], hasMore = True, offset = num 2,
               totalResults = num 3, batchNumber = 1\<rparr>"
  let ?tr = "[Request (Get (ItemList 1000 (num 0))), Wait 200]"
  let ?trb = "?tr @ [Request (Get (ItemList 1000 (num 2)))]"
  have ap: "after_page demo_host ?d (?init\<lparr>batchNumber := Suc (batchNumber ?init)\<rparr>) = (False, ?st)"
    using after_page_shaped [where d = ?d and xs = "[demo_item ''1'', demo_item ''2'']"
        and st = "?init\<lparr>batchNumber := Suc (batchNumber ?init)\<rparr>" and h = demo_host and off = 0]
    by simp
  have first: "sweep_loop demo_host ?up 1000 default_options [] ?init
               = sweep_loop demo_host ?up 1000 default_options ?tr ?st"
    using sweep_loop_page [where st = ?init and opts = default_options and up = ?up and tr = "[]"
        and limit = 1000 and d = ?d and h = demo_host and ?st1.0 = ?st] ap
    by (simp add: default_options_def paged_upstream_def)
  have fail: "netsuiteRequest ?up ?tr (Get (ItemList 1000 (num 2))) 3
              = (Inl (HttpError (Some 500)), ?trb)"
    using netsuiteRequest_other_failure [of ?up ?tr "Get (ItemList 1000 (num 2))" "Some 500" 3]
    by (simp add: paged_upstream_def)
  have h: "hasMore ?st \<and> \<not> at_limit (maxItems default_options) (allItems ?st) \<and> offset ?st = num 2
       \<and> netsuiteRequest ?up ?tr
            (Get (ItemList (itemsToFetch 1000 default_options ?st) (offset ?st))) 3
           = (Inl (HttpError (Some 500)), ?trb)"
    using fail by (simp add: at_limit_def default_options_def itemsToFetch_def)
  have t: "totalResults ?st = num 3 \<and> (3::rat) \<noteq> 0 \<and> (3::rat) < 2 + of_nat 1000"
    by simp
  from fetchAllInventoryItems_pagination [where st = ?st and opts = default_options and up = ?up
      and tr = ?tr and limit = 1000 and ?tr1.0 = ?trb and e = "HttpError (Some 500)"
      and h = demo_host and off = 2] h t
  have "sweep_loop demo_host ?up 1000 default_options ?tr ?st
        = Some (Inr (?st\<lparr>batchNumber := Suc (batchNumber ?st), offset := num (2 + of_nat 1000),
                         hasMore := False\<rparr>), ?trb)"
    by blast
  then show "map_option fst (fetchAllInventoryItems demo_host ?up [] default_options)
     = Some [demo_item ''1'', demo_item ''2'']"
    using first by (simp add: fetchAllInventoryItems_def default_options_def)
qed

text \<open>
  The claim as the specification words it, the end of the loop as soon as the advanced
  offset exceeds the total observed before, fails for an observed total of 0, which
  \<open>totalResults || 100000\<close> replaces by 100000: after the first page announced the total 0
  and the second request failed, the loop goes on with the offset 1001 and fetches a
  further page.
\<close>

theorem fetchAllInventoryItems_zero_total_counterexample:
  "fetchAllInventoryItems demo_host
     (paged_upstream [Response (demo_page [demo_item ''1''] True 0), Failure (Some 500),
                      Response (demo_page [demo_item ''3''] False 0)])
     [] default_options
   = Some ([demo_item ''1'', demo_item ''3''],
           [Request (Get (ItemList 1000 (num 0))), Wait 200,
            Request (Get (ItemList 1000 (num 1))),
            Request (Get (ItemList 1000 (num 1001)))])
   \<and> [demo_item ''1'', demo_item ''3''] \<noteq> [demo_item ''1'']"
  by code_simp

section \<open>Idempotent upsert\<close>

lemma replace_or_insert_twice:
  "replace_or_insert (get_prop doc ''internalId'') doc
     (replace_or_insert (get_prop doc ''internalId'') doc s)
   = replace_or_insert (get_prop doc ''internalId'') doc s"
  by (induction s) (simp_all add: has_id_def)

lemma upsert_twice: "upsert valid doc (upsert valid doc s) = upsert valid doc s"
  by (simp add: upsert_def findOneAndUpdate_def replace_or_insert_twice)

lemma upsert_funpow: "0 < n \<Longrightarrow> (upsert valid doc ^^ n) s = upsert valid doc s"
proof (induction n)
  case 0
  then show ?case by simp
next
  case (Suc n)
  show ?case
  proof (cases "n = 0")
    case True
    then show ?thesis by simp
  next
    case False
    then have "(upsert valid doc ^^ n) s = upsert valid doc s" using Suc.IH by simp
    then show ?thesis by (simp add: upsert_twice)
  qed
qed

text \<open>
  C9. Against the store as the specification describes it (insert-or-replace by
  \<open>internalId\<close>, validation before the commit), writing an unchanged canonical record a
  second time changes nothing: the collection after two upserts, and after any number
  \<open>n > 0\<close> of them, is the collection after one, and the second call returns the same
  stored record.
\<close>

theorem upsert_idempotent:
  "upsert valid doc (upsert valid doc s) = upsert valid doc s
   \<and> (\<forall>n. 0 < n \<longrightarrow> (upsert valid doc ^^ n) s = upsert valid doc s)
   \<and> (\<forall>stored s1. findOneAndUpdate valid doc s = Inr (stored, s1) \<longrightarrow>
         findOneAndUpdate valid doc s1 = Inr (stored, s1))"
proof (intro conjI allI impI)
  show "upsert valid doc (upsert valid doc s) = upsert valid doc s" by (rule upsert_twice)
next
  fix n :: nat assume "0 < n"
  then show "(upsert valid doc ^^ n) s = upsert valid doc s" by (rule upsert_funpow)
next
  fix stored s1
  assume "findOneAndUpdate valid doc s = Inr (stored, s1)"
  then show "findOneAndUpdate valid doc s1 = Inr (stored, s1)"
    by (auto simp: findOneAndUpdate_def replace_or_insert_twice split: if_splits)
qed

theorem upsert_idempotent_witness:
  "(upsert (\<lambda>d. True) (demo_doc 2 ''new'') ^^ 3) [demo_doc 1 ''a'', demo_doc 2 ''old'']
     = [demo_doc 1 ''a'', demo_doc 2 ''new'']
   \<and> upsert (\<lambda>d. True) (demo_doc 2 ''new'') [demo_doc 1 ''a'', demo_doc 2 ''old'']
     = [demo_doc 1 ''a'', demo_doc 2 ''new'']
   \<and> findOneAndUpdate (\<lambda>d. True) (demo_doc 2 ''new'') [demo_doc 1 ''a'', demo_doc 2 ''new'']
     = Inr (demo_doc 2 ''new'', [demo_doc 1 ''a'', demo_doc 2 ''new''])"
proof -
  have one: "findOneAndUpdate (\<lambda>d. True) (demo_doc 2 ''new'') [demo_doc 1 ''a'', demo_doc 2 ''old'']
      = Inr (demo_doc 2 ''new'', [demo_doc 1 ''a'', demo_doc 2 ''new''])"
    by (simp add: findOneAndUpdate_def has_id_def demo_doc_def)
  then have u: "upsert (\<lambda>d. True) (demo_doc 2 ''new'') [demo_doc 1 ''a'', demo_doc 2 ''old'']
      = [demo_doc 1 ''a'', demo_doc 2 ''new'']"
    by (simp add: upsert_def)
  have pos: "(0::nat) < 3" by simp
  from upsert_idempotent [of "\<lambda>d. True" "demo_doc 2 ''new''" "[demo_doc 1 ''a'', demo_doc 2 ''old'']"]
  show ?thesis using one u pos by metis
qed

section \<open>Per-record fault isolation\<close>

text \<open>
  What the \<open>try\<close> block of \<open>syncAllInventory\<close> achieves: for a candidate that is not
  \<open>undefined\<close> or \<open>null\<close> and whose id converts to a string, the body of the loop does not
  throw, whatever the fetch, the transformer and the store do, and the loop over such
  candidates counts every one of them.
\<close>

lemma save_item_counts:
  "processedCount (save_item h valid itemId doc st) = processedCount st"
  by (simp add: save_item_def add_error_def Let_def split: sum.splits prod.splits option.splits)

lemma process_all_caught:
  assumes "\<not> nullish item" "convertible (get_prop item ''id'')"
  shows "fst (process_all h up valid item st) = None
       \<and> processedCount (snd (process_all h up valid item st)) = Suc (processedCount st)"
  using assms
  by (simp add: process_all_def read_prop_def Let_def add_error_def save_item_counts
           split: prod.splits sum.splits option.splits)

lemma for_each_item_caught:
  "\<forall>item\<in>set items. \<not> nullish item \<and> convertible (get_prop item ''id'') \<Longrightarrow>
   \<exists>st'. for_each_item (process_all h up valid) items st = (None, st')
       \<and> processedCount st' = processedCount st + length items"
proof (induction items arbitrary: st)
  case Nil
  then show ?case by simp
next
  case (Cons item rest)
  obtain s1 where b: "process_all h up valid item st = (None, s1)"
    and p1: "processedCount s1 = Suc (processedCount st)"
    using process_all_caught [of item h up valid st] Cons.prems
    by (cases "process_all h up valid item st") auto
  from Cons.IH [of s1] Cons.prems obtain st' where
    "for_each_item (process_all h up valid) rest s1 = (None, st')"
    "processedCount st' = processedCount s1 + length rest"
    by auto
  then show ?case using b p1 by simp
qed

text \<open>
  C4. One record can abort a run. The listing of candidates 8, 9 and 7, where the fetch
  of 9 fails and 7 is inactive, gives the completed report with \<open>processed = 3\<close>, one
  saved, one skipped and one failed record. On the same listing
  \<^item> when the price of the level \<open>WLP (Base)\<close> of item 8 arrives as the string \<open>"100"\<close>, all
    three candidates are processed and item 8 is saved, but the summary after the loop
    throws (the sum of the trade prices is a string, which has no \<open>toFixed\<close>) and the run
    returns the failure report of the outer \<open>catch\<close>;
  \<^item> when the second candidate is \<open>null\<close>, reading its id throws outside the \<open>try\<close> block of
    the loop: the run returns the failure report and the third candidate is never
    processed.
  For the candidates 6 and 8, where the base record of 6 makes the transformer throw,
  \<open>syncAllInventory\<close> records the error of 6 and saves 8, whereas \<open>syncInventory\<close> of
  \<open>scripts/syncInventory.js\<close>, whose call of the transformer is outside every \<open>try\<close> of
  the loop, returns the failure report without having processed or saved anything.
\<close>

theorem run_aborted_by_one_record:
  "map_option outcome_of
     (syncAllInventory demo_host
        (run_upstream [demo_item ''8'', demo_item ''9'', demo_item ''7''] demo_wlp)
        (\<lambda>d. True) default_options [] [])
   = Some (Completed \<lparr>processed = 3, saved = 1, skippedInactive = 1, failed = 1,
                       reported_errors = [(JStr ''9'', Fetch_failed)]\<rparr>,
           3, [(JStr ''9'', Fetch_failed)], [num 8])
   \<and> map_option outcome_of
     (syncAllInventory demo_host
        (run_upstream [demo_item ''8'', demo_item ''9'', demo_item ''7''] string_wlp)
        (\<lambda>d. True) default_options [] [])
   = Some (Aborted TypeError, 3, [(JStr ''9'', Fetch_failed)], [num 8])
   \<and> map_option outcome_of
     (syncAllInventory demo_host
        (run_upstream [demo_item ''8'', JNull, demo_item ''7''] demo_wlp)
        (\<lambda>d. True) default_options [] [])
   = Some (Aborted TypeError, 1, [], [num 8])
   \<and> map_option outcome_of
     (syncAllInventory demo_host
        (run_upstream [demo_item ''6'', demo_item ''8''] demo_wlp)
        (\<lambda>d. True) default_options [] [])
   = Some (Completed \<lparr>processed = 2, saved = 1, skippedInactive = 0, failed = 1,
                       reported_errors = [(JStr ''6'', Thrown TypeError)]\<rparr>,
           2, [(JStr ''6'', Thrown TypeError)], [num 8])
   \<and> outcome_of
     (syncInventory demo_host
        (run_upstream [demo_item ''6'', demo_item ''8''] demo_wlp)
        (\<lambda>d. True) 10 (JStr ''2024-01-01'') [] [])
   = (Aborted TypeError, 0, [], [])"
  by code_simp

section \<open>Movement join\<close>

lemma strict_set_movement:
  "strict_set inventory_schema (movement_fields m i) doc = doc"
  by (simp add: strict_set_def movement_fields_def inventory_schema_def split: option.splits)

lemma updateOne_dropped: "updateOne inventory_schema i (movement_fields m i) s = s"
  by (induction s) (simp_all add: strict_set_movement)

lemma update_item_store:
  "m_db (update_item inventory_schema write_fails m i st) = m_db st"
  by (simp add: update_item_def updateOne_dropped)

lemma updates_store:
  "m_db (foldl (\<lambda>s i. update_item inventory_schema write_fails m i s) st ids) = m_db st"
  by (induction ids arbitrary: st) (simp_all add: update_item_store)

text \<open>
  C8. The handler joins correctly and the store drops what it sends. Against the model
  \<open>InventoryItem\<close> as the repository declares it, whose schema has neither
  \<open>last_movement_date\<close> nor \<open>moved_last_12_months\<close>, no batch of the movement pass changes
  a stored document, whatever the upstream returns. For the stored ids 1, 2 and 3 and a
  movement result that holds only id 2, the batch ends without an exception and counts
  one updated item, and the three documents keep the movement fields they had: none for
  ids 1 and 2, the stale ones for id 3. Had the schema declared the two fields, the same
  batch would have given id 2 the date and the flag of its row, and ids 1 and 3 \<open>null\<close> and
  \<open>false\<close>.
\<close>

theorem movement_batch_fields_not_declared:
  "m_db (fst (snd (movement_batch h up inventory_schema write_fails tr itemIds st))) = m_db st
   \<and> movement_batch demo_host movement_upstream inventory_schema (\<lambda>i. False) []
        [num 1, num 2, num 3] demo_stored
      = (None, demo_stored\<lparr>updatedCount := 1\<rparr>,
         [Request (Post (SuiteQL [num 1, num 2, num 3]))])
   \<and> map (movement_of (m_db demo_stored)) [num 1, num 2, num 3]
      = [Some (JUndefined, JUndefined), Some (JUndefined, JUndefined),
         Some (JDate (Local_Date 2020 0 1), JBool True)]
   \<and> map (movement_of (m_db (fst (snd
             (movement_batch demo_host movement_upstream schema_with_movement (\<lambda>i. False) []
                [num 1, num 2, num 3] demo_stored)))))
          [num 1, num 2, num 3]
      = [Some (JNull, JBool False), Some (JDate (Local_Date 2024 2 15), JBool True),
         Some (JNull, JBool False)]"
proof (intro conjI)
  show "m_db (fst (snd (movement_batch h up inventory_schema write_fails tr itemIds st))) = m_db st"
    by (auto simp: movement_batch_def updates_store split: prod.splits sum.splits)
  show "movement_batch demo_host movement_upstream inventory_schema (\<lambda>i. False) []
        [num 1, num 2, num 3] demo_stored
      = (None, demo_stored\<lparr>updatedCount := 1\<rparr>,
         [Request (Post (SuiteQL [num 1, num 2, num 3]))])"
    by code_simp
  show "map (movement_of (m_db demo_stored)) [num 1, num 2, num 3]
      = [Some (JUndefined, JUndefined), Some (JUndefined, JUndefined),
         Some (JDate (Local_Date 2020 0 1), JBool True)]"
    by code_simp
  show "map (movement_of (m_db (fst (snd
             (movement_batch demo_host movement_upstream schema_with_movement (\<lambda>i. False) []
                [num 1, num 2, num 3] demo_stored)))))
          [num 1, num 2, num 3]
      = [Some (JNull, JBool False), Some (JDate (Local_Date 2024 2 15), JBool True),
         Some (JNull, JBool False)]"
    by code_simp
qed

end
